theory Spec2Isabelle
  imports Complex_Main "HOL-Library.AList" "HOL-Library.Log_Nat"
begin

unbundle bit_operations_syntax

section \<open>Values, errors and the colour record\<close>

text \<open>
  The development follows \<^verbatim>\<open>colortools/base.py\<close>. A \<^verbatim>\<open>Color\<close> object stores
  four integers in the slots \<^verbatim>\<open>_red\<close>, \<^verbatim>\<open>_green\<close>, \<^verbatim>\<open>_blue\<close> and \<^verbatim>\<open>_alpha\<close>.
  Python integers are unbounded, so the fields are of type \<open>int\<close>; nothing in the class
  clamps them.
\<close>

record Color =
  red :: int
  green :: int
  blue :: int
  alpha :: int

text \<open>The exceptions that the modelled code can raise.\<close>

datatype error =
    TypeError
  | ValueError
  | KeyError
  | IndexError
  | AttributeError
  | ZeroDivisionError
  | OverflowError
  | NotImplementedError

text \<open>
  A Python float is an IEEE 754 double: a finite number, an infinity or NaN. A finite
  float is given by its exact value. The two zeros are one value here: nothing in
  the module tells them apart (a zero divisor raises whatever its sign).
\<close>

datatype fp = Finite real | PInf | NInf | NaN

text \<open>
  Python values that reach the class as arguments.

  \<^item> A string is a list of 8-bit characters, read as the code points U+0000 to U+00FF.
  \<^item> A float is a value of type \<open>fp\<close>.
  \<^item> \<open>VColor (Some c)\<close> is a \<^verbatim>\<open>Color\<close> object whose slots hold \<open>c\<close>;
    \<open>VColor None\<close> is a \<^verbatim>\<open>Color\<close> object whose \<^verbatim>\<open>__init__\<close> returned
    without assigning the slots, so that reading any of them raises
    \<^verbatim>\<open>AttributeError\<close>.
  \<^item> \<open>VOther\<close> is an object that the model does not look inside (for instance
    \<^verbatim>\<open>NotImplemented\<close>, a function or a bound method). As an argument it stands
    for a truthy object that is not an instance of \<^verbatim>\<open>int\<close>, \<^verbatim>\<open>float\<close>,
    \<^verbatim>\<open>str\<close>, \<^verbatim>\<open>tuple\<close>, \<^verbatim>\<open>list\<close> or \<^verbatim>\<open>Color\<close>, defines none of
    \<^verbatim>\<open>__int__\<close>, \<^verbatim>\<open>__index__\<close>, \<^verbatim>\<open>__trunc__\<close>, \<^verbatim>\<open>__len__\<close>,
    \<^verbatim>\<open>__iter__\<close>, \<^verbatim>\<open>__eq__\<close>, and has no attribute \<^verbatim>\<open>rgb\<close>,
    \<^verbatim>\<open>rgba\<close> or \<^verbatim>\<open>_red\<close>.
\<close>

datatype pyval =
    VNone
  | VBool bool
  | VInt int
  | VFloat fp
  | VStr string
  | VTuple "pyval list"
  | VList "pyval list"
  | VColor "Color option"
  | VOther

text \<open>Keyword arguments of a call, in the order given; the names are distinct.\<close>

type_synonym kwargs = "(string \<times> pyval) list"

text \<open>Sequencing of computations that may raise.\<close>

fun ebind :: "error + 'a \<Rightarrow> ('a \<Rightarrow> error + 'b) \<Rightarrow> error + 'b" where
  "ebind (Inl e) f = Inl e"
| "ebind (Inr x) f = f x"

fun emap :: "('a \<Rightarrow> error + 'b) \<Rightarrow> 'a list \<Rightarrow> error + 'b list" where
  "emap f [] = Inr []"
| "emap f (x # xs) = ebind (f x) (\<lambda>y. ebind (emap f xs) (\<lambda>ys. Inr (y # ys)))"

section \<open>Float arithmetic\<close>

text \<open>
  Rounding of a real number to the nearest double, ties to the even significand:
  53 significant bits, exponents from -1022 to 1023, gradual underflow below
  \<open>2 ^ -1022\<close>, and an infinity when the rounded value reaches \<open>2 ^ 1024\<close>.
  \<open>expo x\<close> is the integer \<open>e\<close> with \<open>2 ^ e \<le> \<bar>x\<bar> < 2 ^ (e + 1)\<close>, computed on
  integers; \<open>pow2\<close> is the power of two with an integer exponent.
\<close>

definition round_even :: "real \<Rightarrow> int" where
  "round_even t =
     (let n = \<lfloor>t\<rfloor>; f = t - of_int n in
      if f < 1 / 2 then n
      else if 1 / 2 < f then n + 1
      else if even n then n else n + 1)"

definition expo :: "real \<Rightarrow> int" where
  "expo x =
     (if 1 \<le> \<bar>x\<bar> then bitlen \<lfloor>\<bar>x\<bar>\<rfloor> - 1
      else - bitlen (\<lceil>1 / \<bar>x\<bar>\<rceil> - 1))"

definition pow2 :: "int \<Rightarrow> real" where
  "pow2 k = (if 0 \<le> k then 2 ^ nat k else 1 / 2 ^ nat (- k))"

definition round_double :: "real \<Rightarrow> fp" where
  "round_double x =
     (if x = 0 then Finite 0
      else
        let u = pow2 (max (expo x) (- 1022) - 52);
            y = u * of_int (round_even (x / u))
        in if 2 ^ 1024 \<le> y then PInf
           else if y \<le> - (2 ^ 1024) then NInf
           else Finite y)"

text \<open>
  Addition, subtraction and multiplication of floats are the C operations: the exact
  result rounded, with the IEEE rules for infinities and NaN. They raise nothing.
\<close>

fun is_neg :: "fp \<Rightarrow> bool" where
  "is_neg (Finite a) = (a < 0)"
| "is_neg NInf = True"
| "is_neg _ = False"

fun fneg :: "fp \<Rightarrow> fp" where
  "fneg (Finite a) = Finite (- a)"
| "fneg PInf = NInf"
| "fneg NInf = PInf"
| "fneg NaN = NaN"

fun fadd :: "fp \<Rightarrow> fp \<Rightarrow> fp" where
  "fadd (Finite a) (Finite b) = round_double (a + b)"
| "fadd NaN y = NaN"
| "fadd x NaN = NaN"
| "fadd PInf NInf = NaN"
| "fadd NInf PInf = NaN"
| "fadd PInf y = PInf"
| "fadd NInf y = NInf"
| "fadd x PInf = PInf"
| "fadd x NInf = NInf"

definition fsub :: "fp \<Rightarrow> fp \<Rightarrow> fp" where
  "fsub x y = fadd x (fneg y)"

fun fmul :: "fp \<Rightarrow> fp \<Rightarrow> fp" where
  "fmul (Finite a) (Finite b) = round_double (a * b)"
| "fmul NaN y = NaN"
| "fmul x NaN = NaN"
| "fmul x y =
     (if x = Finite 0 \<or> y = Finite 0 then NaN
      else if is_neg x = is_neg y then PInf else NInf)"

text \<open>
  Division of floats (\<^verbatim>\<open>float_div\<close>): a zero divisor raises
  \<^verbatim>\<open>ZeroDivisionError\<close>, whatever the dividend; otherwise it is the C division
  \<open>c_div\<close>, which is used for no other divisor.
\<close>

fun c_div :: "fp \<Rightarrow> fp \<Rightarrow> fp" where
  "c_div (Finite a) (Finite b) = round_double (a / b)"
| "c_div NaN y = NaN"
| "c_div x NaN = NaN"
| "c_div (Finite a) y = Finite 0"
| "c_div x (Finite b) = (if is_neg x = (b < 0) then PInf else NInf)"
| "c_div x y = NaN"

definition py_fdiv :: "fp \<Rightarrow> fp \<Rightarrow> error + fp" where
  "py_fdiv x y = (if y = Finite 0 then Inl ZeroDivisionError else Inr (c_div x y))"

text \<open>
  Conversion of an integer to a float (\<^verbatim>\<open>PyLong_AsDouble\<close>) and the true
  division of two integers (\<^verbatim>\<open>long_true_divide\<close>): both round the exact result
  once and raise \<^verbatim>\<open>OverflowError\<close> when it is too large for a double.
\<close>

definition finite_or_overflow :: "fp \<Rightarrow> error + fp" where
  "finite_or_overflow f = (case f of Finite y \<Rightarrow> Inr (Finite y) | _ \<Rightarrow> Inl OverflowError)"

definition int_to_float :: "int \<Rightarrow> error + fp" where
  "int_to_float n = finite_or_overflow (round_double (real_of_int n))"

definition int_truediv :: "int \<Rightarrow> int \<Rightarrow> error + fp" where
  "int_truediv a b =
     (if b = 0 then Inl ZeroDivisionError
      else finite_or_overflow (round_double (real_of_int a / real_of_int b)))"

text \<open>
  What the model leaves to the platform:
  \<^item> \<open>hash_of\<close>, the builtin \<^verbatim>\<open>hash\<close> on the values that are not integers (strings
    are salted per process, floats and tuples have schemes of their own, lists
    raise);
  \<^item> \<open>libm_pow\<close>, what \<^verbatim>\<open>float_pow\<close> obtains from the C library's \<^verbatim>\<open>pow\<close>
    for a finite base other than 0 and 1: the float, or the exception that it raises
    when the library reports a range or domain error;
  \<^item> \<open>libm_acos\<close>, the C library's \<^verbatim>\<open>acos\<close> on \<open>[-1, 1]\<close>, where it returns
    a finite number.
  The accuracy of \<^verbatim>\<open>pow\<close> and \<^verbatim>\<open>acos\<close> differs between C libraries (they
  are not always correctly rounded), so their results are not fixed here.
\<close>

record platform =
  hash_of :: "pyval \<Rightarrow> error + int"
  libm_pow :: "real \<Rightarrow> real \<Rightarrow> error + fp"
  libm_acos :: "real \<Rightarrow> real"

text \<open>
  \<^verbatim>\<open>x ** 2\<close> on a float (\<^verbatim>\<open>float_pow\<close> with the exponent 2.0): NaN stays NaN,
  an infinity gives the positive infinity, zero gives zero, the absolute value 1
  gives 1, and every other base goes to the C library with its sign removed.
\<close>

definition float_pow2 :: "platform \<Rightarrow> fp \<Rightarrow> error + fp" where
  "float_pow2 p x =
     (case x of
        NaN \<Rightarrow> Inr NaN
      | PInf \<Rightarrow> Inr PInf
      | NInf \<Rightarrow> Inr PInf
      | Finite d \<Rightarrow>
          if d = 0 then Inr (Finite 0)
          else if \<bar>d\<bar> = 1 then Inr (Finite 1)
          else libm_pow p \<bar>d\<bar> 2)"

text \<open>
  \<^verbatim>\<open>math.acos\<close> and \<^verbatim>\<open>math.sqrt\<close>: NaN is returned unchanged, and an argument
  outside the domain raises \<^verbatim>\<open>ValueError\<close>. The square root is correctly rounded.
\<close>

definition math_acos :: "platform \<Rightarrow> fp \<Rightarrow> error + fp" where
  "math_acos p x =
     (case x of
        NaN \<Rightarrow> Inr NaN
      | PInf \<Rightarrow> Inl ValueError
      | NInf \<Rightarrow> Inl ValueError
      | Finite v \<Rightarrow>
          if v < - 1 \<or> 1 < v then Inl ValueError else Inr (Finite (libm_acos p v)))"

definition math_sqrt :: "fp \<Rightarrow> error + fp" where
  "math_sqrt x =
     (case x of
        NaN \<Rightarrow> Inr NaN
      | PInf \<Rightarrow> Inr PInf
      | NInf \<Rightarrow> Inl ValueError
      | Finite v \<Rightarrow> if v < 0 then Inl ValueError else Inr (round_double (sqrt v)))"

text \<open>
  \<^verbatim>\<open>x / y\<close> on values. When an operand is no number the division is a
  \<^verbatim>\<open>TypeError\<close>; two integers divide exactly and round once; otherwise both
  operands become floats, the left one first. A boolean is an integer.
\<close>

fun as_int :: "pyval \<Rightarrow> int option" where
  "as_int (VInt n) = Some n"
| "as_int (VBool b) = Some (if b then 1 else 0)"
| "as_int _ = None"

fun is_number :: "pyval \<Rightarrow> bool" where
  "is_number (VInt n) = True"
| "is_number (VBool b) = True"
| "is_number (VFloat f) = True"
| "is_number _ = False"

definition to_float :: "pyval \<Rightarrow> error + fp" where
  "to_float v =
     (case v of
        VFloat f \<Rightarrow> Inr f
      | _ \<Rightarrow> (case as_int v of Some n \<Rightarrow> int_to_float n | None \<Rightarrow> Inl TypeError))"

definition py_truediv :: "pyval \<Rightarrow> pyval \<Rightarrow> error + pyval" where
  "py_truediv x y =
     (if is_number x \<and> is_number y then
        (case (as_int x, as_int y) of
           (Some a, Some b) \<Rightarrow> ebind (int_truediv a b) (\<lambda>f. Inr (VFloat f))
         | _ \<Rightarrow>
             ebind (to_float x) (\<lambda>a.
             ebind (to_float y) (\<lambda>b.
             ebind (py_fdiv a b) (\<lambda>f. Inr (VFloat f)))))
      else Inl TypeError)"

section \<open>The builtin \<^verbatim>\<open>int\<close>\<close>

text \<open>
  \<^verbatim>\<open>int(s, base)\<close> on a string, as CPython's \<^verbatim>\<open>PyLong_FromString\<close> reads it:
  optional white space, an optional sign, for base 16 an optional \<^verbatim>\<open>0x\<close> prefix
  (which may be followed by one underscore), then digits with single underscores
  between them, then optional white space. Anything else is a \<^verbatim>\<open>ValueError\<close>.

  In a string of code points below 256 the characters accepted as white space are
  tab, line feed, vertical tab, form feed, carriage return, space, U+0085 and U+00A0.
\<close>

definition is_space :: "char \<Rightarrow> bool" where
  "is_space c = ((of_char c :: nat) \<in> set [9, 10, 11, 12, 13, 32, 133, 160])"

text \<open>
  The digit table \<^verbatim>\<open>_PyLong_DigitValue\<close>: 0 to 9 for the decimal digits, 10 to 35
  for the letters in either case, and 37 for every other character.
\<close>

definition digit_value :: "char \<Rightarrow> nat" where
  "digit_value c =
     (let n = (of_char c :: nat) in
      if 48 \<le> n \<and> n \<le> 57 then n - 48
      else if 97 \<le> n \<and> n \<le> 122 then n - 87
      else if 65 \<le> n \<and> n \<le> 90 then n - 55
      else 37)"

text \<open>
  The digit scan. The flag says whether the previous character was an underscore.
  The result is the value read, the number of digits and the rest of the string;
  \<open>None\<close> is a syntax error (two underscores in a row, or one at the end).
\<close>

fun scan_digits :: "nat \<Rightarrow> string \<Rightarrow> bool \<Rightarrow> nat \<Rightarrow> nat \<Rightarrow> (nat \<times> nat \<times> string) option" where
  "scan_digits base [] prev acc n = (if prev then None else Some (acc, n, []))"
| "scan_digits base (c # cs) prev acc n =
     (if c = CHR ''_'' then (if prev then None else scan_digits base cs True acc n)
      else if digit_value c < base then scan_digits base cs False (acc * base + digit_value c) (Suc n)
      else if prev then None else Some (acc, n, c # cs))"

definition strip_sign :: "string \<Rightarrow> int \<times> string" where
  "strip_sign s =
     (case s of
        [] \<Rightarrow> (1, [])
      | c # cs \<Rightarrow> if c = CHR ''+'' then (1, cs) else if c = CHR ''-'' then (-1, cs) else (1, s))"

definition strip_prefix :: "nat \<Rightarrow> string \<Rightarrow> string" where
  "strip_prefix base s =
     (case s of
        c # d # cs \<Rightarrow>
          if base = 16 \<and> c = CHR ''0'' \<and> (d = CHR ''x'' \<or> d = CHR ''X'')
          then (case cs of [] \<Rightarrow> [] | u # us \<Rightarrow> if u = CHR ''_'' then us else cs)
          else s
      | _ \<Rightarrow> s)"

definition int_of_string :: "nat \<Rightarrow> string \<Rightarrow> error + int" where
  "int_of_string base s =
     (let (sign, s1) = strip_sign (dropWhile is_space s);
          s2 = strip_prefix base s1
      in case s2 of
           [] \<Rightarrow> Inl ValueError
         | c # cs \<Rightarrow>
             if c = CHR ''_'' then Inl ValueError
             else (case scan_digits base s2 False 0 0 of
                     None \<Rightarrow> Inl ValueError
                   | Some (v, n, rest) \<Rightarrow>
                       if n = 0 then Inl ValueError
                       else if dropWhile is_space rest \<noteq> [] then Inl ValueError
                       else Inr (sign * int v)))"

text \<open>
  \<^verbatim>\<open>int(x)\<close> with one argument. Booleans are integers, a finite float is
  truncated towards zero, an infinity raises \<^verbatim>\<open>OverflowError\<close> and NaN
  \<^verbatim>\<open>ValueError\<close>, a string is read in base 10, and every other value of the model
  is a \<^verbatim>\<open>TypeError\<close> (the class \<^verbatim>\<open>Color\<close> defines no \<^verbatim>\<open>__int__\<close>).
\<close>

fun py_int :: "pyval \<Rightarrow> error + int" where
  "py_int (VInt n) = Inr n"
| "py_int (VBool b) = Inr (if b then 1 else 0)"
| "py_int (VFloat (Finite x)) = Inr (if x < 0 then \<lceil>x\<rceil> else \<lfloor>x\<rfloor>)"
| "py_int (VFloat NaN) = Inl ValueError"
| "py_int (VFloat f) = Inl OverflowError"
| "py_int (VStr s) = int_of_string 10 s"
| "py_int _ = Inl TypeError"

section \<open>Construction\<close>

text \<open>
  \<^verbatim>\<open>_fromrgba(self, r=0, g=0, b=0, a=255)\<close> converts each argument with
  \<^verbatim>\<open>int\<close>, in order, and stores it. The first conversion that fails raises.
\<close>

definition fromrgba :: "pyval \<Rightarrow> pyval \<Rightarrow> pyval \<Rightarrow> pyval \<Rightarrow> error + Color" where
  "fromrgba r g b a =
     ebind (py_int r) (\<lambda>r'.
     ebind (py_int g) (\<lambda>g'.
     ebind (py_int b) (\<lambda>b'.
     ebind (py_int a) (\<lambda>a'.
       Inr \<lparr>red = r', green = g', blue = b', alpha = a'\<rparr>))))"

text \<open>
  Binding of a call's arguments to the parameters of a method (after \<^verbatim>\<open>self\<close>):
  a keyword must name a parameter that no positional argument has filled, and there
  may not be more positional arguments than parameters. A call that breaks this
  raises \<^verbatim>\<open>TypeError\<close>.
\<close>

definition args_ok :: "string list \<Rightarrow> pyval list \<Rightarrow> kwargs \<Rightarrow> bool" where
  "args_ok params args kw =
     (length args \<le> length params \<and>
      list_all (\<lambda>k. k \<in> set (drop (length args) params)) (map fst kw))"

definition arg :: "string list \<Rightarrow> pyval list \<Rightarrow> kwargs \<Rightarrow> nat \<Rightarrow> pyval \<Rightarrow> pyval" where
  "arg params args kw i dflt =
     (if i < length args then args ! i
      else case map_of kw (params ! i) of Some v \<Rightarrow> v | None \<Rightarrow> dflt)"

definition call_fromrgba :: "pyval list \<Rightarrow> kwargs \<Rightarrow> error + Color" where
  "call_fromrgba args kw =
     (let ps = [''r'', ''g'', ''b'', ''a''] in
      if args_ok ps args kw
      then fromrgba (arg ps args kw 0 (VInt 0)) (arg ps args kw 1 (VInt 0))
                    (arg ps args kw 2 (VInt 0)) (arg ps args kw 3 (VInt 255))
      else Inl TypeError)"

text \<open>
  \<^verbatim>\<open>_fromhex(self, value, alpha=255)\<close>. The first character is dropped whatever it
  is; a rest of three or four characters is doubled character by character; a rest
  of six characters gives red, green and blue and takes \<open>alpha\<close> from the argument; a
  rest of eight gives all four; any other length raises \<^verbatim>\<open>ValueError\<close>.
\<close>

definition hex_pair :: "string \<Rightarrow> nat \<Rightarrow> error + int" where
  "hex_pair v i = int_of_string 16 (take 2 (drop (2 * i) v))"

definition fromhex :: "string \<Rightarrow> pyval \<Rightarrow> error + Color" where
  "fromhex value a0 =
     (let v0 = drop 1 value;
          v = (if length v0 \<in> set [3, 4] then concat (map (\<lambda>c. [c, c]) v0) else v0)
      in if length v = 6 then
           ebind (hex_pair v 0) (\<lambda>r.
           ebind (hex_pair v 1) (\<lambda>g.
           ebind (hex_pair v 2) (\<lambda>b.
             fromrgba (VInt r) (VInt g) (VInt b) a0)))
         else if length v = 8 then
           ebind (hex_pair v 0) (\<lambda>r.
           ebind (hex_pair v 1) (\<lambda>g.
           ebind (hex_pair v 2) (\<lambda>b.
           ebind (hex_pair v 3) (\<lambda>a.
             fromrgba (VInt r) (VInt g) (VInt b) (VInt a)))))
         else Inl ValueError)"

definition call_fromhex :: "string \<Rightarrow> kwargs \<Rightarrow> error + Color" where
  "call_fromhex value kw =
     (let ps = [''value'', ''alpha''] in
      if args_ok ps [VStr value] kw
      then fromhex value (arg ps [VStr value] kw 1 (VInt 255))
      else Inl TypeError)"

section \<open>The name registry and the constructor\<close>

text \<open>
  The class attribute \<^verbatim>\<open>_CACHE\<close> is a dict from names to \<^verbatim>\<open>Color\<close> objects. It
  is an association list here, in insertion order, and it is passed to the code that
  reads it together with the three numbers that \<^verbatim>\<open>random.randint(0, 255)\<close> returns
  when the constructor asks for them.
\<close>

type_synonym registry = "(string \<times> Color option) list"

record env =
  CACHE :: registry
  randint :: "int \<times> int \<times> int"

text \<open>\<^verbatim>\<open>str.lower\<close> on code points below 256.\<close>

definition lower_char :: "char \<Rightarrow> char" where
  "lower_char c =
     (let n = (of_char c :: nat) in
      if (65 \<le> n \<and> n \<le> 90) \<or> (192 \<le> n \<and> n \<le> 222 \<and> n \<noteq> 215)
      then char_of (n + 32) else c)"

definition lower :: "string \<Rightarrow> string" where
  "lower s = map lower_char s"

text \<open>
  \<^verbatim>\<open>__iter__\<close> yields the four slots in order. On an object whose slots were never
  assigned the first read raises \<^verbatim>\<open>AttributeError\<close>.
\<close>

definition Color_iter :: "Color \<Rightarrow> int list" where
  "Color_iter c = [red c, green c, blue c, alpha c]"

fun obj_iter :: "Color option \<Rightarrow> error + pyval list" where
  "obj_iter None = Inl AttributeError"
| "obj_iter (Some c) = Inr (map VInt (Color_iter c))"

text \<open>
  \<^verbatim>\<open>_fromname(self, value)\<close> looks the lower-cased name up and copies the
  components of the registered colour; a missing name is a \<^verbatim>\<open>KeyError\<close>.
\<close>

definition fromname :: "registry \<Rightarrow> string \<Rightarrow> error + Color" where
  "fromname cache value =
     (case map_of cache (lower value) of
        None \<Rightarrow> Inl KeyError
      | Some obj \<Rightarrow> ebind (obj_iter obj) (\<lambda>xs. call_fromrgba xs []))"

definition call_fromname :: "registry \<Rightarrow> string \<Rightarrow> kwargs \<Rightarrow> error + Color" where
  "call_fromname cache value kw =
     (if args_ok [''value''] [VStr value] kw then fromname cache value else Inl TypeError)"

text \<open>The integer branch of the constructor: three byte fields of the argument.\<close>

definition from_int :: "int \<Rightarrow> kwargs \<Rightarrow> error + Color" where
  "from_int v kw =
     call_fromrgba
       [VInt (drop_bit 16 (v AND 0xff0000)), VInt (drop_bit 8 (v AND 0xff00)),
        VInt (drop_bit 0 (v AND 0xff))] kw"

definition startswith_hash :: "string \<Rightarrow> bool" where
  "startswith_hash s = (case s of [] \<Rightarrow> False | c # _ \<Rightarrow> c = CHR ''#'')"

definition from_str :: "env \<Rightarrow> string \<Rightarrow> kwargs \<Rightarrow> error + Color" where
  "from_str e s kw =
     (if startswith_hash s then call_fromhex s kw
      else if s = ''random'' then
        (case randint e of (x, y, z) \<Rightarrow> call_fromrgba [VInt x, VInt y, VInt z] [])
      else call_fromname (CACHE e) s kw)"

definition initialised :: "error + Color \<Rightarrow> error + Color option" where
  "initialised r = ebind r (\<lambda>c. Inr (Some c))"

text \<open>
  \<^verbatim>\<open>Color.__init__(self, *args, **kwargs)\<close>. The result is the state of the new
  object: \<open>Some c\<close> when the slots were assigned, \<open>None\<close> when \<^verbatim>\<open>__init__\<close>
  returned without assigning them.

  \<^item> With no argument the code executes \<^verbatim>\<open>raise NotImplemented\<close>; that object is
    not an exception, so the interpreter raises \<^verbatim>\<open>TypeError\<close>.
  \<^item> With two arguments, or more than four, the code builds a \<^verbatim>\<open>TypeError\<close> and
    does not raise it.
  \<^item> With one argument that is none of list, tuple, \<^verbatim>\<open>Color\<close>, string or integer,
    no branch of the inner chain applies and there is no \<^verbatim>\<open>else\<close>.
  \<^item> A boolean is an instance of \<^verbatim>\<open>int\<close>.
\<close>

definition Color_init :: "env \<Rightarrow> pyval list \<Rightarrow> kwargs \<Rightarrow> error + Color option" where
  "Color_init e args kw =
     (if length args \<in> set [3, 4] then initialised (call_fromrgba args kw)
      else if length args = 1 then
        (case hd args of
           VList xs \<Rightarrow> initialised (call_fromrgba xs [])
         | VTuple xs \<Rightarrow> initialised (call_fromrgba xs [])
         | VColor obj \<Rightarrow> initialised (ebind (obj_iter obj) (\<lambda>xs. call_fromrgba xs []))
         | VStr s \<Rightarrow> initialised (from_str e s kw)
         | VInt v \<Rightarrow> initialised (from_int v kw)
         | VBool b \<Rightarrow> initialised (from_int (if b then 1 else 0) kw)
         | _ \<Rightarrow> Inr None)
      else if length args = 0 then Inl TypeError
      else Inr None)"

subsection \<open>The registry after import\<close>

text \<open>
  The module first calls \<^verbatim>\<open>Color._CACHE.update(white=Color('#ffffff'), ...)\<close> with
  the eighteen basic colours and then
  \<^verbatim>\<open>Color._CACHE.setdefault(_name, Color(_code))\<close> for every pair of
  \<^verbatim>\<open>COLOR_NAMES\<close>.
\<close>

definition basic_colors :: "(string \<times> string) list" where
  "basic_colors = [
    (''white'', ''#ffffff''), (''silver'', ''#c0c0c0''), (''gray'', ''#808080''),
     (''black'', ''#000000''), (''red'', ''#ff0000''), (''maroon'', ''#800000''),
     (''yellow'', ''#ffff00''), (''olive'', ''#808000''), (''lime'', ''#00ff00''),
     (''green'', ''#008000''), (''aqua'', ''#00ffff''), (''teal'', ''#008080''),
     (''blue'', ''#0000ff''), (''navy'', ''#000080''), (''fuschia'', ''#ff00ff''),
     (''purple'', ''#800080''), (''transparent'', ''#ffffff00''), (''null'', ''#00000000'')]"

definition COLOR_NAMES :: "(string \<times> string) list" where
  "COLOR_NAMES = [
    (''aliceblue'', ''#F0F8FF''), (''antiquewhite'', ''#FAEBD7''), (''aqua'', ''#00FFFF''),
     (''aquamarine'', ''#7FFFD4''), (''azure'', ''#F0FFFF''), (''beige'', ''#F5F5DC''),
     (''bisque'', ''#FFE4C4''), (''black'', ''#000000''), (''blanchedalmond'', ''#FFEBCD''),
     (''blue'', ''#0000FF''), (''blueviolet'', ''#8A2BE2''), (''brown'', ''#A52A2A''),
     (''burlywood'', ''#DEB887''), (''cadetblue'', ''#5F9EA0''), (''chartreuse'', ''#7FFF00''),
     (''chocolate'', ''#D2691E''), (''coral'', ''#FF7F50''), (''cornflowerblue'', ''#6495ED''),
     (''cornsilk'', ''#FFF8DC''), (''crimson'', ''#DC143C''), (''cyan'', ''#00FFFF''),
     (''darkblue'', ''#00008B''), (''darkcyan'', ''#008B8B''),
     (''darkgoldenrod'', ''#B8860B''), (''darkgray'', ''#A9A9A9''),
     (''darkgreen'', ''#006400''), (''darkgrey'', ''#A9A9A9''), (''darkkhaki'', ''#BDB76B''),
     (''darkmagenta'', ''#8B008B''), (''darkolivegreen'', ''#556B2F''),
     (''darkorange'', ''#FF8C00''), (''darkorchid'', ''#9932CC''), (''darkred'', ''#8B0000''),
     (''darksalmon'', ''#E9967A''), (''darkseagreen'', ''#8FBC8F''),
     (''darkslateblue'', ''#483D8B''), (''darkslategray'', ''#2F4F4F''),
     (''darkslategrey'', ''#2F4F4F''), (''darkturquoise'', ''#00CED1''),
     (''darkviolet'', ''#9400D3''), (''deeppink'', ''#FF1493''),
     (''deepskyblue'', ''#00BFFF''), (''dimgray'', ''#696969''), (''dimgrey'', ''#696969''),
     (''dodgerblue'', ''#1E90FF''), (''firebrick'', ''#B22222''),
     (''floralwhite'', ''#FFFAF0''), (''forestgreen'', ''#228B22''),
     (''fuchsia'', ''#FF00FF''), (''gainsboro'', ''#DCDCDC''), (''ghostwhite'', ''#F8F8FF''),
     (''gold'', ''#FFD700''), (''goldenrod'', ''#DAA520''), (''gray'', ''#808080''),
     (''green'', ''#008000''), (''greenyellow'', ''#ADFF2F''), (''grey'', ''#808080''),
     (''honeydew'', ''#F0FFF0''), (''hotpink'', ''#FF69B4''), (''indianred'', ''#CD5C5C''),
     (''indigo'', ''#4B0082''), (''ivory'', ''#FFFFF0''), (''khaki'', ''#F0E68C''),
     (''lavender'', ''#E6E6FA''), (''lavenderblush'', ''#FFF0F5''),
     (''lawngreen'', ''#7CFC00''), (''lemonchiffon'', ''#FFFACD''),
     (''lightblue'', ''#ADD8E6''), (''lightcoral'', ''#F08080''), (''lightcyan'', ''#E0FFFF''),
     (''lightgoldenrodyellow'', ''#FAFAD2''), (''lightgray'', ''#D3D3D3''),
     (''lightgreen'', ''#90EE90''), (''lightgrey'', ''#D3D3D3''), (''lightpink'', ''#FFB6C1''),
     (''lightsalmon'', ''#FFA07A''), (''lightseagreen'', ''#20B2AA''),
     (''lightskyblue'', ''#87CEFA''), (''lightslategray'', ''#778899''),
     (''lightslategrey'', ''#778899''), (''lightsteelblue'', ''#B0C4DE''),
     (''lightyellow'', ''#FFFFE0''), (''lime'', ''#00FF00''), (''limegreen'', ''#32CD32''),
     (''linen'', ''#FAF0E6''), (''magenta'', ''#FF00FF''), (''maroon'', ''#800000''),
     (''mediumaquamarine'', ''#66CDAA''), (''mediumblue'', ''#0000CD''),
     (''mediumorchid'', ''#BA55D3''), (''mediumpurple'', ''#9370DB''),
     (''mediumseagreen'', ''#3CB371''), (''mediumslateblue'', ''#7B68EE''),
     (''mediumspringgreen'', ''#00FA9A''), (''mediumturquoise'', ''#48D1CC''),
     (''mediumvioletred'', ''#C71585''), (''midnightblue'', ''#191970''),
     (''mintcream'', ''#F5FFFA''), (''mistyrose'', ''#FFE4E1''), (''moccasin'', ''#FFE4B5''),
     (''navajowhite'', ''#FFDEAD''), (''navy'', ''#000080''), (''oldlace'', ''#FDF5E6''),
     (''olive'', ''#808000''), (''olivedrab'', ''#6B8E23''), (''orange'', ''#FFA500''),
     (''orangered'', ''#FF4500''), (''orchid'', ''#DA70D6''), (''palegoldenrod'', ''#EEE8AA''),
     (''palegreen'', ''#98FB98''), (''paleturquoise'', ''#AFEEEE''),
     (''palevioletred'', ''#DB7093''), (''papayawhip'', ''#FFEFD5''),
     (''peachpuff'', ''#FFDAB9''), (''peru'', ''#CD853F''), (''pink'', ''#FFC0CB''),
     (''plum'', ''#DDA0DD''), (''powderblue'', ''#B0E0E6''), (''purple'', ''#800080''),
     (''red'', ''#FF0000''), (''rosybrown'', ''#BC8F8F''), (''royalblue'', ''#4169E1''),
     (''saddlebrown'', ''#8B4513''), (''salmon'', ''#FA8072''), (''sandybrown'', ''#F4A460''),
     (''seagreen'', ''#2E8B57''), (''seashell'', ''#FFF5EE''), (''sienna'', ''#A0522D''),
     (''silver'', ''#C0C0C0''), (''skyblue'', ''#87CEEB''), (''slateblue'', ''#6A5ACD''),
     (''slategray'', ''#708090''), (''slategrey'', ''#708090''), (''snow'', ''#FFFAFA''),
     (''springgreen'', ''#00FF7F''), (''steelblue'', ''#4682B4''), (''tan'', ''#D2B48C''),
     (''teal'', ''#008080''), (''thistle'', ''#D8BFD8''), (''tomato'', ''#FF6347''),
     (''turquoise'', ''#40E0D0''), (''violet'', ''#EE82EE''), (''wheat'', ''#F5DEB3''),
     (''white'', ''#FFFFFF''), (''whitesmoke'', ''#F5F5F5''), (''yellow'', ''#FFFF00''),
     (''yellowgreen'', ''#9ACD32'')]"

definition dict_update :: "registry \<Rightarrow> (string \<times> Color option) list \<Rightarrow> registry" where
  "dict_update d kvs = foldl (\<lambda>d (k, v). AList.update k v d) d kvs"

definition setdefault :: "registry \<Rightarrow> string \<Rightarrow> Color option \<Rightarrow> registry" where
  "setdefault d k v = (case map_of d k of None \<Rightarrow> AList.update k v d | Some _ \<Rightarrow> d)"

fun setdefault_all :: "int \<times> int \<times> int \<Rightarrow> registry \<Rightarrow> (string \<times> string) list \<Rightarrow> error + registry" where
  "setdefault_all rnd d [] = Inr d"
| "setdefault_all rnd d ((name, code) # rest) =
     ebind (Color_init \<lparr>CACHE = d, randint = rnd\<rparr> [VStr code] [])
       (\<lambda>obj. setdefault_all rnd (setdefault d name obj) rest)"

definition module_CACHE :: "int \<times> int \<times> int \<Rightarrow> error + registry" where
  "module_CACHE rnd =
     ebind (emap (\<lambda>(name, code).
                    ebind (Color_init \<lparr>CACHE = [], randint = rnd\<rparr> [VStr code] [])
                      (\<lambda>obj. Inr (name, obj))) basic_colors)
       (\<lambda>kvs. setdefault_all rnd (dict_update [] kvs) COLOR_NAMES)"

section \<open>Reading a colour\<close>

text \<open>
  \<^verbatim>\<open>__getitem__(self, key)\<close>. An integer key (a boolean is one) is shifted by
  \<^verbatim>\<open>len(self)\<close>, which is 4, when negative; the keys 0 to 3 give the slots and every
  other integer raises \<^verbatim>\<open>IndexError\<close>. Any other key indexes the tuple
  \<^verbatim>\<open>_RANGE = (0, 1, 2, 3)\<close>: a slice selects positions, whose components are read
  in turn, and a key that is neither raises \<^verbatim>\<open>TypeError\<close> there.
\<close>

datatype key = KInt int | KSlice "int option" "int option" "int option" | KOther

definition getitem_int :: "Color \<Rightarrow> int \<Rightarrow> error + int" where
  "getitem_int c k0 =
     (if k0 < 0 \<and> k0 + 4 < 0 then Inl IndexError
      else let k = (if k0 < 0 then k0 + 4 else k0) in
        if k = 0 then Inr (red c)
        else if k = 1 then Inr (green c)
        else if k = 2 then Inr (blue c)
        else if k = 3 then Inr (alpha c)
        else Inl IndexError)"

text \<open>
  Slicing of a tuple, as \<^verbatim>\<open>PySlice_AdjustIndices\<close> computes it: a step of zero
  raises \<^verbatim>\<open>ValueError\<close>, missing bounds default by the sign of the step, and
  bounds outside the tuple are clipped.
\<close>

definition tuple_slice :: "'a list \<Rightarrow> int option \<Rightarrow> int option \<Rightarrow> int option \<Rightarrow> error + 'a list" where
  "tuple_slice xs lo hi st =
     (let step = (case st of None \<Rightarrow> 1 | Some s \<Rightarrow> s);
          n = int (length xs);
          clip = (\<lambda>v. if v < 0 then (if v + n < 0 then (if step < 0 then - 1 else 0) else v + n)
                       else if n \<le> v then (if step < 0 then n - 1 else n)
                       else v);
          start = (case lo of None \<Rightarrow> (if step < 0 then n - 1 else 0) | Some v \<Rightarrow> clip v);
          stop = (case hi of None \<Rightarrow> (if step < 0 then - 1 else n) | Some v \<Rightarrow> clip v);
          count = (if step < 0
                   then (if stop < start then (start - stop - 1) div (- step) + 1 else 0)
                   else (if start < stop then (stop - start - 1) div step + 1 else 0))
      in if step = 0 then Inl ValueError
         else Inr (map (\<lambda>i. xs ! nat (start + int i * step)) [0..<nat count]))"

definition Color_getitem :: "Color \<Rightarrow> key \<Rightarrow> error + pyval" where
  "Color_getitem c k =
     (case k of
        KInt i \<Rightarrow> ebind (getitem_int c i) (\<lambda>v. Inr (VInt v))
      | KSlice lo hi st \<Rightarrow>
          ebind (tuple_slice [0, 1, 2, 3] lo hi st) (\<lambda>ps.
          ebind (emap (getitem_int c) ps) (\<lambda>vs. Inr (VTuple (map VInt vs))))
      | KOther \<Rightarrow> Inl TypeError)"

text \<open>The properties \<^verbatim>\<open>rgba\<close> (\<^verbatim>\<open>tuple(self)\<close>) and \<^verbatim>\<open>rgb\<close> (\<^verbatim>\<open>self[:3]\<close>).\<close>

definition Color_rgba :: "Color \<Rightarrow> pyval" where
  "Color_rgba c = VTuple (map VInt (Color_iter c))"

definition Color_rgb :: "Color \<Rightarrow> error + pyval" where
  "Color_rgb c = Color_getitem c (KSlice None (Some 3) None)"

text \<open>
  The packed words \<^verbatim>\<open>rgbau\<close> and \<^verbatim>\<open>rgbu\<close>: shifts and sums of the components
  \<^verbatim>\<open>c[0]\<close> to \<^verbatim>\<open>c[3]\<close>.
\<close>

definition rgbau :: "Color \<Rightarrow> int" where
  "rgbau c = push_bit 24 (red c) + push_bit 16 (green c) + push_bit 8 (blue c) + alpha c"

definition rgbu :: "Color \<Rightarrow> int" where
  "rgbu c = push_bit 16 (red c) + push_bit 8 (green c) + blue c"

text \<open>
  The float views: \<^verbatim>\<open>rgbf\<close> is \<^verbatim>\<open>tuple(x / 255. for x in self[:3])\<close> and
  \<^verbatim>\<open>rgbaf\<close> the same over all four components.
\<close>

definition Color_rgbf :: "Color \<Rightarrow> error + pyval" where
  "Color_rgbf c =
     ebind (emap (\<lambda>x. py_truediv (VInt x) (VFloat (Finite 255))) [red c, green c, blue c])
       (\<lambda>t. Inr (VTuple t))"

definition Color_rgbaf :: "Color \<Rightarrow> error + pyval" where
  "Color_rgbaf c =
     ebind (emap (\<lambda>x. py_truediv (VInt x) (VFloat (Finite 255))) (Color_iter c))
       (\<lambda>t. Inr (VTuple t))"

text \<open>
  The property \<^verbatim>\<open>hsia\<close>, operation by operation in the order the code performs
  them. Each may raise: the integer divisions and the conversion of the minimum
  \<^verbatim>\<open>OverflowError\<close>, the division by the intensity \<^verbatim>\<open>ZeroDivisionError\<close>,
  \<^verbatim>\<open>math.acos\<close> and \<^verbatim>\<open>math.sqrt\<close> \<^verbatim>\<open>ValueError\<close>, the square
  \<^verbatim>\<open>OverflowError\<close>, and the last division \<^verbatim>\<open>ZeroDivisionError\<close>. The code
  has no test before any of them.
\<close>

definition hsia_values :: "platform \<Rightarrow> Color \<Rightarrow> error + fp \<times> fp \<times> fp \<times> int" where
  "hsia_values p c =
     (let R = red c; G = green c; B = blue c; a = alpha c in
      ebind (int_truediv (R + G + B) 3) (\<lambda>I.
      ebind (int_to_float (min R (min G B))) (\<lambda>m.
      ebind (py_fdiv m I) (\<lambda>q.
      let S = fsub (Finite 1) q in
      ebind (int_truediv R 255) (\<lambda>r.
      ebind (int_truediv G 255) (\<lambda>g.
      ebind (int_truediv B 255) (\<lambda>b.
      ebind (py_fdiv (fadd (fsub r g) (fsub r b)) (Finite 2)) (\<lambda>x.
      ebind (math_acos p x) (\<lambda>h_numer.
      ebind (float_pow2 p (fsub r b)) (\<lambda>sq.
      ebind (math_sqrt (fadd sq (fmul (fsub r b) (fsub g b)))) (\<lambda>h_denom.
      ebind (py_fdiv h_numer h_denom) (\<lambda>h.
        Inr (h, S, I, a)))))))))))))"

definition Color_hsia :: "platform \<Rightarrow> Color \<Rightarrow> error + pyval list" where
  "Color_hsia p c =
     ebind (hsia_values p c) (\<lambda>(h, s, i, a). Inr [VFloat h, VFloat s, VFloat i, VInt a])"

text \<open>
  \<^verbatim>\<open>hsi\<close> is \<^verbatim>\<open>self.hsia[:-1]\<close>; \<^verbatim>\<open>hsiaf\<close> and \<^verbatim>\<open>hsif\<close> are
  \<^verbatim>\<open>tuple(x / 255 for x in ...)\<close> over \<^verbatim>\<open>hsia\<close> and \<^verbatim>\<open>hsi\<close>.
\<close>

definition Color_hsi :: "platform \<Rightarrow> Color \<Rightarrow> error + pyval list" where
  "Color_hsi p c = ebind (Color_hsia p c) (\<lambda>t. tuple_slice t None (Some (- 1)) None)"

definition Color_hsiaf :: "platform \<Rightarrow> Color \<Rightarrow> error + pyval list" where
  "Color_hsiaf p c = ebind (Color_hsia p c) (emap (\<lambda>x. py_truediv x (VInt 255)))"

definition Color_hsif :: "platform \<Rightarrow> Color \<Rightarrow> error + pyval list" where
  "Color_hsif p c = ebind (Color_hsi p c) (emap (\<lambda>x. py_truediv x (VInt 255)))"

subsection \<open>Attribute lookup and hashing\<close>

text \<open>
  What \<^verbatim>\<open>self.name\<close> gives on an initialised \<^verbatim>\<open>Color\<close>. The class body defines
  the four slots, the properties below, its methods and the class attributes
  \<^verbatim>\<open>__slots__\<close>, \<^verbatim>\<open>_CACHE\<close> and \<^verbatim>\<open>_RANGE\<close>; the rest is inherited from
  \<^verbatim>\<open>object\<close>. The class has slots and therefore no instance dictionary, and it
  defines no \<^verbatim>\<open>__getattr__\<close>: every other name raises \<^verbatim>\<open>AttributeError\<close>.
  The properties \<^verbatim>\<open>hue\<close>, \<^verbatim>\<open>saturation\<close> and \<^verbatim>\<open>intensity\<close> return
  \<^verbatim>\<open>NotImplemented\<close>. Methods, class attributes and inherited names resolve to
  objects that the model does not look inside; they are listed so that the lookup
  succeeds exactly on the names that exist.
\<close>

definition Color_other_names :: "string list" where
  "Color_other_names =
     [''__slots__'', ''_CACHE'', ''_RANGE'', ''from_rgba'', ''__init__'', ''_fromrgba'',
      ''_fromhex'', ''_fromname'', ''copy'', ''__repr__'', ''__len__'', ''__eq__'',
      ''__iter__'', ''__getitem__'', ''__hash__'',
      ''__class__'', ''__delattr__'', ''__dir__'', ''__doc__'', ''__format__'', ''__ge__'',
      ''__getattribute__'', ''__gt__'', ''__init_subclass__'', ''__le__'', ''__lt__'',
      ''__module__'', ''__ne__'', ''__new__'', ''__reduce__'', ''__reduce_ex__'',
      ''__setattr__'', ''__sizeof__'', ''__str__'', ''__subclasshook__'']"

definition Color_getattr :: "platform \<Rightarrow> Color \<Rightarrow> string \<Rightarrow> error + pyval" where
  "Color_getattr p c name =
     (if name \<in> set [''red'', ''_red''] then Inr (VInt (red c))
      else if name \<in> set [''green'', ''_green''] then Inr (VInt (green c))
      else if name \<in> set [''blue'', ''_blue''] then Inr (VInt (blue c))
      else if name \<in> set [''alpha'', ''_alpha''] then Inr (VInt (alpha c))
      else if name \<in> set [''hue'', ''saturation'', ''intensity''] then Inr VOther
      else if name = ''rgba'' then Inr (Color_rgba c)
      else if name = ''rgb'' then Color_rgb c
      else if name = ''rgbf'' then Color_rgbf c
      else if name = ''rgbaf'' then Color_rgbaf c
      else if name = ''rgbau'' then Inr (VInt (rgbau c))
      else if name = ''rgbu'' then Inr (VInt (rgbu c))
      else if name = ''hsi'' then ebind (Color_hsi p c) (\<lambda>t. Inr (VTuple t))
      else if name = ''hsia'' then ebind (Color_hsia p c) (\<lambda>t. Inr (VTuple t))
      else if name = ''hsiaf'' then ebind (Color_hsiaf p c) (\<lambda>t. Inr (VTuple t))
      else if name = ''hsif'' then ebind (Color_hsif p c) (\<lambda>t. Inr (VTuple t))
      else if name \<in> set Color_other_names then Inr VOther
      else Inl AttributeError)"

text \<open>
  The builtin \<^verbatim>\<open>hash\<close>. On an integer it is the value modulo \<open>2 ^ 61 - 1\<close> with
  the sign kept, and \<open>-2\<close> in place of \<open>-1\<close>; a boolean hashes as 0 or 1. The hash
  of every other value is left to the platform.
\<close>

definition py_hash_int :: "int \<Rightarrow> int" where
  "py_hash_int n =
     (let v = sgn n * (\<bar>n\<bar> mod (2 ^ 61 - 1)) in if v = - 1 then - 2 else v)"

definition py_hash :: "platform \<Rightarrow> pyval \<Rightarrow> error + int" where
  "py_hash p v =
     (case v of
        VInt n \<Rightarrow> Inr (py_hash_int n)
      | VBool b \<Rightarrow> Inr (if b then 1 else 0)
      | _ \<Rightarrow> hash_of p v)"

text \<open>\<^verbatim>\<open>__hash__\<close> is \<^verbatim>\<open>hash(self.u_rgba)\<close>.\<close>

definition Color_hash :: "platform \<Rightarrow> Color \<Rightarrow> error + int" where
  "Color_hash p c = ebind (Color_getattr p c ''u_rgba'') (py_hash p)"

section \<open>Equality, copies and the module functions\<close>

text \<open>
  \<^verbatim>\<open>len\<close> and iteration of a value. A \<^verbatim>\<open>Color\<close> object has length 4 whatever its
  state; iterating one whose slots are unassigned raises at the first item. A string
  iterates as its characters.
\<close>

fun py_len :: "pyval \<Rightarrow> error + nat" where
  "py_len (VStr s) = Inr (length s)"
| "py_len (VTuple xs) = Inr (length xs)"
| "py_len (VList xs) = Inr (length xs)"
| "py_len (VColor obj) = Inr 4"
| "py_len _ = Inl TypeError"

fun py_iter :: "pyval \<Rightarrow> error + pyval list" where
  "py_iter (VStr s) = Inr (map (\<lambda>ch. VStr [ch]) s)"
| "py_iter (VTuple xs) = Inr xs"
| "py_iter (VList xs) = Inr xs"
| "py_iter (VColor obj) = obj_iter obj"
| "py_iter _ = Inl TypeError"

text \<open>
  \<^verbatim>\<open>x == y\<close> for an integer \<open>x\<close>. Numbers compare by value. When \<open>y\<close> is a
  \<^verbatim>\<open>Color\<close> object the interpreter calls \<^verbatim>\<open>Color.__eq__(y, x)\<close>, which fails to
  read \<^verbatim>\<open>x._red\<close> and then raises \<^verbatim>\<open>TypeError\<close> at \<^verbatim>\<open>len(x)\<close>. Every other
  value is unequal to an integer.
\<close>

fun int_eq :: "int \<Rightarrow> pyval \<Rightarrow> error + bool" where
  "int_eq x (VInt y) = Inr (x = y)"
| "int_eq x (VBool b) = Inr (x = (if b then 1 else 0))"
| "int_eq x (VFloat y) = Inr (y = Finite (real_of_int x))"
| "int_eq x (VColor obj) = Inl TypeError"
| "int_eq x _ = Inr False"

text \<open>\<^verbatim>\<open>all(x == y for (x, y) in zip(self, other))\<close>: it stops at the first unequal pair.\<close>

fun all_eq :: "int list \<Rightarrow> pyval list \<Rightarrow> error + bool" where
  "all_eq (x # xs) (y # ys) = ebind (int_eq x y) (\<lambda>b. if b then all_eq xs ys else Inr False)"
| "all_eq _ _ = Inr True"

text \<open>
  \<^verbatim>\<open>__eq__(self, other)\<close>. Another initialised \<^verbatim>\<open>Color\<close> is compared slot by
  slot. For every other value reading \<^verbatim>\<open>other._red\<close> raises
  \<^verbatim>\<open>AttributeError\<close> and the handler compares by length; an exception raised in the
  handler leaves the method.
\<close>

definition Color_eq :: "Color \<Rightarrow> pyval \<Rightarrow> error + bool" where
  "Color_eq c other =
     (case other of
        VColor (Some d) \<Rightarrow>
          Inr (red c = red d \<and> green c = green d \<and> blue c = blue d \<and> alpha c = alpha d)
      | _ \<Rightarrow>
          ebind (py_len other) (\<lambda>n.
            if n = 4 then ebind (py_iter other) (all_eq (Color_iter c))
            else if n = 3 then
              (if alpha c = 255 then ebind (py_iter other) (all_eq (Color_iter c))
               else Inr False)
            else Inr False))"

text \<open>
  \<^verbatim>\<open>copy(self, red=None, green=None, blue=None, alpha=None, **kwds)\<close>. A parameter
  that is not \<^verbatim>\<open>None\<close> replaces the component; any further keyword raises
  \<^verbatim>\<open>NotImplementedError\<close>; the result is \<^verbatim>\<open>Color(R, G, B, A)\<close>.
\<close>

definition Color_copy ::
  "env \<Rightarrow> Color \<Rightarrow> pyval \<Rightarrow> pyval \<Rightarrow> pyval \<Rightarrow> pyval \<Rightarrow> kwargs \<Rightarrow> error + Color option" where
  "Color_copy e c r g b a kwds =
     (let R = (if r \<noteq> VNone then r else VInt (red c));
          G = (if g \<noteq> VNone then g else VInt (green c));
          B = (if b \<noteq> VNone then b else VInt (blue c));
          A = (if a \<noteq> VNone then a else VInt (alpha c))
      in if kwds \<noteq> [] then Inl NotImplementedError
         else Color_init e [R, G, B, A] [])"

text \<open>Truth value of an object: \<^verbatim>\<open>Color\<close> defines \<^verbatim>\<open>__len__\<close>, which returns 4.\<close>

fun truthy :: "pyval \<Rightarrow> bool" where
  "truthy VNone = False"
| "truthy (VBool b) = b"
| "truthy (VInt n) = (n \<noteq> 0)"
| "truthy (VFloat x) = (x \<noteq> Finite 0)"
| "truthy (VStr s) = (s \<noteq> [])"
| "truthy (VTuple xs) = (xs \<noteq> [])"
| "truthy (VList xs) = (xs \<noteq> [])"
| "truthy (VColor obj) = True"
| "truthy VOther = True"

text \<open>
  The attributes \<^verbatim>\<open>rgb\<close> and \<^verbatim>\<open>rgba\<close> of an arbitrary value. Only a
  \<^verbatim>\<open>Color\<close> has them, and on one without slots the property raises
  \<^verbatim>\<open>AttributeError\<close> as the lookup on any other value does.
\<close>

definition attr_rgb :: "pyval \<Rightarrow> error + pyval" where
  "attr_rgb v = (case v of VColor (Some c) \<Rightarrow> Color_rgb c | _ \<Rightarrow> Inl AttributeError)"

definition attr_rgba :: "pyval \<Rightarrow> error + pyval" where
  "attr_rgba v = (case v of VColor (Some c) \<Rightarrow> Inr (Color_rgba c) | _ \<Rightarrow> Inl AttributeError)"

text \<open>
  The module functions \<^verbatim>\<open>rgb(color)\<close> and \<^verbatim>\<open>rgba(color)\<close>: on
  \<^verbatim>\<open>AttributeError\<close> they build \<^verbatim>\<open>Color(color or 'black')\<close> and read the
  attribute of that.
\<close>

definition rgb :: "env \<Rightarrow> pyval \<Rightarrow> error + pyval" where
  "rgb e color =
     (case attr_rgb color of
        Inl AttributeError \<Rightarrow>
          ebind (Color_init e [if truthy color then color else VStr ''black''] [])
            (\<lambda>obj. attr_rgb (VColor obj))
      | r \<Rightarrow> r)"

definition rgba :: "env \<Rightarrow> pyval \<Rightarrow> error + pyval" where
  "rgba e color =
     (case attr_rgba color of
        Inl AttributeError \<Rightarrow>
          ebind (Color_init e [if truthy color then color else VStr ''black''] [])
            (\<lambda>obj. attr_rgba (VColor obj))
      | r \<Rightarrow> r)"

section \<open>Notions used in the statements\<close>

text \<open>
  An optional integer override of \<^verbatim>\<open>copy\<close>, as the argument the method receives
  (\<^verbatim>\<open>None\<close> when the component is not overridden), and the component that the
  copy is expected to have.
\<close>

definition override :: "int option \<Rightarrow> pyval" where
  "override v = (case v of None \<Rightarrow> VNone | Some x \<Rightarrow> VInt x)"

definition overridden :: "int option \<Rightarrow> int \<Rightarrow> int" where
  "overridden v old = (case v of None \<Rightarrow> old | Some x \<Rightarrow> x)"

text \<open>A hexadecimal digit, the value of two of them, and the doubling of digits.\<close>

definition hex_digit :: "char \<Rightarrow> bool" where
  "hex_digit c = (c \<in> set ''0123456789abcdefABCDEF'')"

definition hex_byte :: "char \<Rightarrow> char \<Rightarrow> int" where
  "hex_byte c d = int (16 * digit_value c + digit_value d)"

definition doubled :: "string \<Rightarrow> string" where
  "doubled ds = concat (map (\<lambda>c. [c, c]) ds)"

text \<open>A colour code of the tables: \<^verbatim>\<open>#\<close> and six or eight hexadecimal digits.\<close>

definition hex_code :: "string \<Rightarrow> bool" where
  "hex_code s =
     (case s of
        [] \<Rightarrow> False
      | c # ds \<Rightarrow> c = CHR ''#'' \<and> list_all hex_digit ds \<and> (length ds = 6 \<or> length ds = 8))"

text \<open>
  Whether a value is a \<^verbatim>\<open>Color\<close> object, and whether an integer component and an
  element of a sequence are equal as numbers (an element that is no number equals no
  component).
\<close>

definition is_Color :: "pyval \<Rightarrow> bool" where
  "is_Color v = (case v of VColor obj \<Rightarrow> True | _ \<Rightarrow> False)"

definition component_equals :: "int \<Rightarrow> pyval \<Rightarrow> bool" where
  "component_equals x v =
     (case v of
        VInt y \<Rightarrow> x = y
      | VBool b \<Rightarrow> x = (if b then 1 else 0)
      | VFloat y \<Rightarrow> y = Finite (real_of_int x)
      | _ \<Rightarrow> False)"

section \<open>Construction from components\<close>

lemma call_fromrgba_ints:
  "call_fromrgba [VInt r, VInt g, VInt b, VInt a] [] =
     Inr \<lparr>red = r, green = g, blue = b, alpha = a\<rparr>"
  by (simp add: call_fromrgba_def args_ok_def arg_def fromrgba_def)

lemma call_fromrgba_ints3:
  "call_fromrgba [VInt r, VInt g, VInt b] [] =
     Inr \<lparr>red = r, green = g, blue = b, alpha = 255\<rparr>"
  by (simp add: call_fromrgba_def args_ok_def arg_def fromrgba_def)

lemma Color_init_ints:
  "Color_init e [VInt r, VInt g, VInt b, VInt a] [] =
     Inr (Some \<lparr>red = r, green = g, blue = b, alpha = a\<rparr>)"
  by (simp add: Color_init_def initialised_def call_fromrgba_ints)

lemma Color_init_ints3:
  "Color_init e [VInt r, VInt g, VInt b] [] =
     Inr (Some \<lparr>red = r, green = g, blue = b, alpha = 255\<rparr>)"
  by (simp add: Color_init_def initialised_def call_fromrgba_ints3)

lemma Color_eq_refl: "Color_eq c (VColor (Some c)) = Inr True"
  by (simp add: Color_eq_def)

section \<open>The hue of a grey\<close>

lemma round_double_128: "round_double 128 = Finite 128"
  by code_simp

lemma round_double_grey: "round_double (128 / 255) = Finite (282578800148737 / 562949953421312)"
  by code_simp

lemma round_double_0: "round_double 0 = Finite 0"
  by (simp add: round_double_def)

lemma hsia_values_grey:
  "hsia_values p \<lparr>red = 128, green = 128, blue = 128, alpha = 255\<rparr> = Inl ZeroDivisionError"
proof -
  have I: "int_truediv 384 3 = Inr (Finite 128)"
    by (simp add: int_truediv_def finite_or_overflow_def round_double_128)
  have m: "int_to_float 128 = Inr (Finite 128)"
    by (simp add: int_to_float_def finite_or_overflow_def round_double_128)
  have q: "py_fdiv (Finite 128) (Finite 128) = Inr (round_double 1)"
    by (simp add: py_fdiv_def)
  have r: "int_truediv 128 255 = Inr (Finite (282578800148737 / 562949953421312))"
    by (simp add: int_truediv_def finite_or_overflow_def round_double_grey)
  have d: "fsub (Finite x) (Finite x) = Finite 0" for x
    by (simp add: fsub_def round_double_0)
  have x: "py_fdiv (Finite 0) (Finite 2) = Inr (Finite 0)"
    by (simp add: py_fdiv_def round_double_0)
  have a: "math_acos p (Finite 0) = Inr (Finite (libm_acos p 0))"
    by (simp add: math_acos_def)
  have sq: "float_pow2 p (Finite 0) = Inr (Finite 0)"
    by (simp add: float_pow2_def)
  have y: "math_sqrt (Finite 0) = Inr (Finite 0)"
    by (simp add: math_sqrt_def round_double_0)
  have z: "py_fdiv h (Finite 0) = Inl ZeroDivisionError" for h
    by (simp add: py_fdiv_def)
  show ?thesis
    by (simp add: hsia_values_def I m q r d round_double_0 x a sq y z)
qed

text \<open>
  C1. The claim is that \<^verbatim>\<open>hsia\<close> of the colour built from (128, 128, 128) returns
  a tuple because the division by zero of the hue is guarded. The code has no guard:
  for equal components the square root in the denominator is zero and the division
  raises \<^verbatim>\<open>ZeroDivisionError\<close>, on every platform.
\<close>

theorem hsia_grey_raises:
  "Color_init e [VInt 128, VInt 128, VInt 128] [] =
     Inr (Some \<lparr>red = 128, green = 128, blue = 128, alpha = 255\<rparr>) \<and>
   Color_hsia p \<lparr>red = 128, green = 128, blue = 128, alpha = 255\<rparr> = Inl ZeroDivisionError"
  by (simp add: Color_init_ints3 Color_hsia_def hsia_values_grey)

section \<open>Arity of the constructor\<close>

text \<open>
  C2. The claim is that a call with two or with five positional arguments raises.
  The code reaches \<^verbatim>\<open>TypeError('invalid number of arguments: ...')\<close> without
  \<^verbatim>\<open>raise\<close>, so \<^verbatim>\<open>__init__\<close> returns and the object has no component.
\<close>

theorem init_wrong_arity_returns:
  "Color_init e [VInt 1, VInt 2] [] = Inr None \<and>
   Color_init e [VInt 1, VInt 2, VInt 3, VInt 4, VInt 5] [] = Inr None"
  by (simp add: Color_init_def)

section \<open>Hashing\<close>

text \<open>
  C3. The claim is that hashing a colour succeeds and uses the packed 32-bit word.
  \<^verbatim>\<open>__hash__\<close> reads the attribute \<^verbatim>\<open>u_rgba\<close>; the property that packs the
  word is called \<^verbatim>\<open>rgbau\<close> and no attribute \<^verbatim>\<open>u_rgba\<close> exists, so hashing any
  colour raises \<^verbatim>\<open>AttributeError\<close>.
\<close>

theorem hash_raises_AttributeError: "Color_hash p c = Inl AttributeError"
  by (simp add: Color_hash_def Color_getattr_def Color_other_names_def)

section \<open>The packed word\<close>

lemma and_255: "(x::int) AND 255 = x mod 256"
proof -
  have "x AND 255 = take_bit 8 x"
    by (simp add: take_bit_eq_mask mask_eq_exp_minus_1)
  then show ?thesis by (simp add: take_bit_eq_mod)
qed

lemma red_field: "drop_bit 16 ((v::int) AND 0xff0000) = (v div 65536) mod 256"
proof -
  have "drop_bit 16 (v AND 0xff0000) = drop_bit 16 v AND drop_bit 16 (0xff0000::int)"
    by (rule drop_bit_and)
  also have "drop_bit 16 (0xff0000::int) = 255"
    by (simp add: drop_bit_eq_div)
  finally show ?thesis
    by (simp add: and_255 drop_bit_eq_div)
qed

lemma green_field: "drop_bit 8 ((v::int) AND 0xff00) = (v div 256) mod 256"
proof -
  have "drop_bit 8 (v AND 0xff00) = drop_bit 8 v AND drop_bit 8 (0xff00::int)"
    by (rule drop_bit_and)
  also have "drop_bit 8 (0xff00::int) = 255"
    by (simp add: drop_bit_eq_div)
  finally show ?thesis
    by (simp add: and_255 drop_bit_eq_div)
qed

lemma blue_field: "drop_bit 0 ((v::int) AND 0xff) = v mod 256"
  by (simp add: and_255)

lemma rgbu_arith: "rgbu c = red c * 65536 + green c * 256 + blue c"
  by (simp add: rgbu_def push_bit_eq_mult)

lemma byte_fields:
  assumes "0 \<le> r" "r \<le> 255" "0 \<le> g" "g \<le> 255" "0 \<le> b" "b \<le> (255::int)"
  shows "drop_bit 16 ((r * 65536 + g * 256 + b) AND 0xff0000) = r"
    and "drop_bit 8 ((r * 65536 + g * 256 + b) AND 0xff00) = g"
    and "drop_bit 0 ((r * 65536 + g * 256 + b) AND 0xff) = b"
proof -
  have lo: "0 \<le> g * 256 + b" "g * 256 + b < 65536"
    using assms by simp_all
  have "(r * 65536 + (g * 256 + b)) div 65536 = r"
    using lo by simp
  then have d16: "(r * 65536 + g * 256 + b) div 65536 = r"
    by (simp only: add.assoc)
  have e8: "r * 65536 + g * 256 + b = (r * 256 + g) * 256 + b"
    by (simp add: algebra_simps)
  have d8: "((r * 256 + g) * 256 + b) div 256 = r * 256 + g"
    using assms by simp
  have m8: "(r * 256 + g) mod 256 = g"
    using assms by simp
  have "((r * 256 + g) * 256 + b) mod 256 = b mod 256"
    by (rule mod_mult_self3)
  also have "b mod 256 = b"
    using assms by simp
  finally have m0: "((r * 256 + g) * 256 + b) mod 256 = b" .
  show "drop_bit 16 ((r * 65536 + g * 256 + b) AND 0xff0000) = r"
    unfolding red_field d16 using assms by simp
  show "drop_bit 8 ((r * 65536 + g * 256 + b) AND 0xff00) = g"
    unfolding green_field e8 d8 by (rule m8)
  show "drop_bit 0 ((r * 65536 + g * 256 + b) AND 0xff) = b"
    unfolding blue_field e8 by (rule m0)
qed

lemma from_int_rgbu:
  assumes "0 \<le> r" "r \<le> 255" "0 \<le> g" "g \<le> 255" "0 \<le> b" "b \<le> (255::int)"
  shows "from_int (rgbu \<lparr>red = r, green = g, blue = b, alpha = a\<rparr>) [] =
         Inr \<lparr>red = r, green = g, blue = b, alpha = 255\<rparr>"
  using byte_fields [OF assms]
  by (simp add: from_int_def rgbu_arith call_fromrgba_def args_ok_def arg_def fromrgba_def)

text \<open>
  C4. For components between 0 and 255, the colour built from them with alpha 255
  has the packed word with red in bits 16 to 23, green in bits 8 to 15 and blue in
  bits 0 to 7, and the constructor applied to that word gives a colour equal to it.
\<close>

theorem packed_rgb_round_trip:
  assumes "0 \<le> r" "r \<le> 255" "0 \<le> g" "g \<le> 255" "0 \<le> b" "b \<le> 255"
  shows "Color_init e [VInt r, VInt g, VInt b, VInt 255] [] =
           Inr (Some \<lparr>red = r, green = g, blue = b, alpha = 255\<rparr>) \<and>
         rgbu \<lparr>red = r, green = g, blue = b, alpha = 255\<rparr> =
           push_bit 16 r + push_bit 8 g + b \<and>
         Color_init e [VInt (rgbu \<lparr>red = r, green = g, blue = b, alpha = 255\<rparr>)] [] =
           Inr (Some \<lparr>red = r, green = g, blue = b, alpha = 255\<rparr>) \<and>
         Color_eq \<lparr>red = r, green = g, blue = b, alpha = 255\<rparr>
           (VColor (Some \<lparr>red = r, green = g, blue = b, alpha = 255\<rparr>)) = Inr True"
proof -
  let ?c = "\<lparr>red = r, green = g, blue = b, alpha = 255\<rparr>"
  have built: "Color_init e [VInt r, VInt g, VInt b, VInt 255] [] = Inr (Some ?c)"
    by (rule Color_init_ints)
  have word: "rgbu ?c = push_bit 16 r + push_bit 8 g + b"
    by (simp add: rgbu_def)
  have "from_int (rgbu ?c) [] = Inr ?c"
    using assms by (rule from_int_rgbu)
  then have again: "Color_init e [VInt (rgbu ?c)] [] = Inr (Some ?c)"
    by (simp add: Color_init_def initialised_def)
  have same: "Color_eq ?c (VColor (Some ?c)) = Inr True"
    by (rule Color_eq_refl)
  from built word again same show ?thesis
    by (intro conjI)
qed

theorem packed_rgb_round_trip_witness:
  "(0::int) \<le> 18 \<and> (18::int) \<le> 255 \<and> (0::int) \<le> 52 \<and> (52::int) \<le> 255 \<and>
   (0::int) \<le> 86 \<and> (86::int) \<le> 255 \<and>
   Color_init \<lparr>CACHE = [], randint = (0, 0, 0)\<rparr>
     [VInt (rgbu \<lparr>red = 18, green = 52, blue = 86, alpha = 255\<rparr>)] [] =
     Inr (Some \<lparr>red = 18, green = 52, blue = 86, alpha = 255\<rparr>)"
proof -
  have h: "(0::int) \<le> 18" "(18::int) \<le> 255" "(0::int) \<le> 52" "(52::int) \<le> 255"
    "(0::int) \<le> 86" "(86::int) \<le> 255"
    by simp_all
  from packed_rgb_round_trip [OF h, of "\<lparr>CACHE = [], randint = (0, 0, 0)\<rparr>"]
  have "Color_init \<lparr>CACHE = [], randint = (0, 0, 0)\<rparr>
     [VInt (rgbu \<lparr>red = 18, green = 52, blue = 86, alpha = 255\<rparr>)] [] =
     Inr (Some \<lparr>red = 18, green = 52, blue = 86, alpha = 255\<rparr>)"
    by (elim conjE)
  with h show ?thesis
    by (intro conjI)
qed

section \<open>Indexing\<close>

text \<open>
  C10. Reading a colour at an integer index: 0 to 3 give red, green, blue and alpha,
  the indices -4 to -1 give the same four components counted from the end, and every
  other integer raises \<^verbatim>\<open>IndexError\<close>.
\<close>

theorem getitem_int_total:
  "Color_getitem c (KInt i) =
     (if i = 0 \<or> i = - 4 then Inr (VInt (red c))
      else if i = 1 \<or> i = - 3 then Inr (VInt (green c))
      else if i = 2 \<or> i = - 2 then Inr (VInt (blue c))
      else if i = 3 \<or> i = - 1 then Inr (VInt (alpha c))
      else Inl IndexError)"
  by (simp add: Color_getitem_def getitem_int_def Let_def)

theorem getitem_int_total_witness:
  "Color_getitem \<lparr>red = 1, green = 2, blue = 3, alpha = 4\<rparr> (KInt (- 1)) = Inr (VInt 4) \<and>
   Color_getitem \<lparr>red = 1, green = 2, blue = 3, alpha = 4\<rparr> (KInt (- 4)) = Inr (VInt 1) \<and>
   Color_getitem \<lparr>red = 1, green = 2, blue = 3, alpha = 4\<rparr> (KInt 4) = Inl IndexError \<and>
   Color_getitem \<lparr>red = 1, green = 2, blue = 3, alpha = 4\<rparr> (KInt (- 5)) = Inl IndexError"
  using getitem_int_total [of "\<lparr>red = 1, green = 2, blue = 3, alpha = 4\<rparr>" "- 1"]
    getitem_int_total [of "\<lparr>red = 1, green = 2, blue = 3, alpha = 4\<rparr>" "- 4"]
    getitem_int_total [of "\<lparr>red = 1, green = 2, blue = 3, alpha = 4\<rparr>" 4]
    getitem_int_total [of "\<lparr>red = 1, green = 2, blue = 3, alpha = 4\<rparr>" "- 5"]
  by simp

section \<open>Equality\<close>

lemma int_eq_plain:
  assumes "\<not> is_Color v"
  shows "int_eq x v = Inr (component_equals x v)"
  using assms by (cases v) (simp_all add: is_Color_def component_equals_def)

lemma Color_eq_four:
  assumes "\<forall>v\<in>set [p, q, s, t]. \<not> is_Color v"
  shows "Color_eq c (VTuple [p, q, s, t]) =
           Inr (component_equals (red c) p \<and> component_equals (green c) q \<and>
                component_equals (blue c) s \<and> component_equals (alpha c) t)"
    and "Color_eq c (VList [p, q, s, t]) =
           Inr (component_equals (red c) p \<and> component_equals (green c) q \<and>
                component_equals (blue c) s \<and> component_equals (alpha c) t)"
  using assms by (simp_all add: Color_eq_def Color_iter_def int_eq_plain)

lemma Color_eq_three:
  assumes "\<forall>v\<in>set [p, q, s]. \<not> is_Color v"
  shows "Color_eq c (VTuple [p, q, s]) =
           Inr (alpha c = 255 \<and> component_equals (red c) p \<and> component_equals (green c) q \<and>
                component_equals (blue c) s)"
    and "Color_eq c (VList [p, q, s]) =
           Inr (alpha c = 255 \<and> component_equals (red c) p \<and> component_equals (green c) q \<and>
                component_equals (blue c) s)"
  using assms by (simp_all add: Color_eq_def Color_iter_def int_eq_plain)

lemma Color_eq_other_length:
  assumes "length vs \<noteq> 3" "length vs \<noteq> 4"
  shows "Color_eq c (VTuple vs) = Inr False" "Color_eq c (VList vs) = Inr False"
  using assms by (simp_all add: Color_eq_def)

lemma Color_eq_Color:
  "Color_eq c (VColor (Some d)) =
     Inr (red c = red d \<and> green c = green d \<and> blue c = blue d \<and> alpha c = alpha d)"
  by (simp add: Color_eq_def)

text \<open>
  C6. A colour equals another colour exactly when the four components agree. It
  equals a tuple or list of four elements exactly when the four components equal the
  elements, and a tuple or list of three elements exactly when its alpha is 255 and
  the first three components equal the elements; a tuple or list of any other length
  is unequal. This is stated for integer elements and for all elements that are not
  themselves colours (numbers compare by value, and an element that is no number
  equals no component). The colour built from (10, 20, 30, 255) equals (10, 20, 30);
  the one built from (10, 20, 30, 128) does not.
\<close>

theorem eq_arity_tolerant:
  "Color_eq c (VTuple [VInt x, VInt y, VInt z, VInt w]) =
     Inr (red c = x \<and> green c = y \<and> blue c = z \<and> alpha c = w) \<and>
   Color_eq c (VList [VInt x, VInt y, VInt z, VInt w]) =
     Inr (red c = x \<and> green c = y \<and> blue c = z \<and> alpha c = w) \<and>
   Color_eq c (VTuple [VInt x, VInt y, VInt z]) =
     Inr (alpha c = 255 \<and> red c = x \<and> green c = y \<and> blue c = z) \<and>
   Color_eq c (VList [VInt x, VInt y, VInt z]) =
     Inr (alpha c = 255 \<and> red c = x \<and> green c = y \<and> blue c = z) \<and>
   Color_init e [VInt 10, VInt 20, VInt 30, VInt 255] [] =
     Inr (Some \<lparr>red = 10, green = 20, blue = 30, alpha = 255\<rparr>) \<and>
   Color_eq \<lparr>red = 10, green = 20, blue = 30, alpha = 255\<rparr>
     (VTuple [VInt 10, VInt 20, VInt 30]) = Inr True \<and>
   Color_init e [VInt 10, VInt 20, VInt 30, VInt 128] [] =
     Inr (Some \<lparr>red = 10, green = 20, blue = 30, alpha = 128\<rparr>) \<and>
   Color_eq \<lparr>red = 10, green = 20, blue = 30, alpha = 128\<rparr>
     (VTuple [VInt 10, VInt 20, VInt 30]) = Inr False \<and>
   Color_eq c (VColor (Some d)) =
     Inr (red c = red d \<and> green c = green d \<and> blue c = blue d \<and> alpha c = alpha d) \<and>
   ((\<forall>v\<in>set [p, q, s, t]. \<not> is_Color v) \<longrightarrow>
      Color_eq c (VTuple [p, q, s, t]) =
        Inr (component_equals (red c) p \<and> component_equals (green c) q \<and>
             component_equals (blue c) s \<and> component_equals (alpha c) t) \<and>
      Color_eq c (VList [p, q, s, t]) =
        Inr (component_equals (red c) p \<and> component_equals (green c) q \<and>
             component_equals (blue c) s \<and> component_equals (alpha c) t) \<and>
      Color_eq c (VTuple [p, q, s]) =
        Inr (alpha c = 255 \<and> component_equals (red c) p \<and>
             component_equals (green c) q \<and> component_equals (blue c) s) \<and>
      Color_eq c (VList [p, q, s]) =
        Inr (alpha c = 255 \<and> component_equals (red c) p \<and>
             component_equals (green c) q \<and> component_equals (blue c) s)) \<and>
   (length vs \<noteq> 3 \<and> length vs \<noteq> 4 \<longrightarrow>
      Color_eq c (VTuple vs) = Inr False \<and> Color_eq c (VList vs) = Inr False)"
proof -
  have ints: "Color_eq c (VTuple [VInt x, VInt y, VInt z, VInt w]) =
       Inr (red c = x \<and> green c = y \<and> blue c = z \<and> alpha c = w) \<and>
     Color_eq c (VList [VInt x, VInt y, VInt z, VInt w]) =
       Inr (red c = x \<and> green c = y \<and> blue c = z \<and> alpha c = w) \<and>
     Color_eq c (VTuple [VInt x, VInt y, VInt z]) =
       Inr (alpha c = 255 \<and> red c = x \<and> green c = y \<and> blue c = z) \<and>
     Color_eq c (VList [VInt x, VInt y, VInt z]) =
       Inr (alpha c = 255 \<and> red c = x \<and> green c = y \<and> blue c = z)"
    by (auto simp add: Color_eq_def Color_iter_def)
  have examples: "Color_init e [VInt 10, VInt 20, VInt 30, VInt 255] [] =
       Inr (Some \<lparr>red = 10, green = 20, blue = 30, alpha = 255\<rparr>) \<and>
     Color_eq \<lparr>red = 10, green = 20, blue = 30, alpha = 255\<rparr>
       (VTuple [VInt 10, VInt 20, VInt 30]) = Inr True \<and>
     Color_init e [VInt 10, VInt 20, VInt 30, VInt 128] [] =
       Inr (Some \<lparr>red = 10, green = 20, blue = 30, alpha = 128\<rparr>) \<and>
     Color_eq \<lparr>red = 10, green = 20, blue = 30, alpha = 128\<rparr>
       (VTuple [VInt 10, VInt 20, VInt 30]) = Inr False"
    by (simp add: Color_eq_def Color_iter_def Color_init_ints)
  have plain: "Color_eq c (VTuple [p, q, s, t]) =
        Inr (component_equals (red c) p \<and> component_equals (green c) q \<and>
             component_equals (blue c) s \<and> component_equals (alpha c) t) \<and>
      Color_eq c (VList [p, q, s, t]) =
        Inr (component_equals (red c) p \<and> component_equals (green c) q \<and>
             component_equals (blue c) s \<and> component_equals (alpha c) t) \<and>
      Color_eq c (VTuple [p, q, s]) =
        Inr (alpha c = 255 \<and> component_equals (red c) p \<and>
             component_equals (green c) q \<and> component_equals (blue c) s) \<and>
      Color_eq c (VList [p, q, s]) =
        Inr (alpha c = 255 \<and> component_equals (red c) p \<and>
             component_equals (green c) q \<and> component_equals (blue c) s)"
    if h: "\<forall>v\<in>set [p, q, s, t]. \<not> is_Color v"
  proof -
    from h have h3: "\<forall>v\<in>set [p, q, s]. \<not> is_Color v"
      by simp
    from Color_eq_four [OF h] Color_eq_three [OF h3] show ?thesis
      by (intro conjI)
  qed
  have other: "Color_eq c (VTuple vs) = Inr False \<and> Color_eq c (VList vs) = Inr False"
    if "length vs \<noteq> 3 \<and> length vs \<noteq> 4"
    using that by (simp add: Color_eq_other_length)
  from ints examples Color_eq_Color [of c d] plain other show ?thesis
    by blast
qed

theorem eq_arity_tolerant_witness:
  "Color_eq \<lparr>red = 1, green = 2, blue = 3, alpha = 255\<rparr> (VTuple [VInt 1, VInt 2, VInt 3]) =
     Inr True \<and>
   Color_eq \<lparr>red = 1, green = 2, blue = 3, alpha = 255\<rparr>
     (VTuple [VInt 1, VInt 2, VInt 3, VInt 4]) = Inr False \<and>
   Color_eq \<lparr>red = 1, green = 2, blue = 3, alpha = 255\<rparr>
     (VColor (Some \<lparr>red = 1, green = 2, blue = 3, alpha = 254\<rparr>)) = Inr False \<and>
   \<not> is_Color (VInt 1) \<and> \<not> is_Color (VFloat (Finite 2)) \<and> \<not> is_Color (VBool False) \<and>
   \<not> is_Color (VStr ''x'') \<and>
   Color_eq \<lparr>red = 1, green = 2, blue = 3, alpha = 255\<rparr>
     (VList [VInt 1, VFloat (Finite 2), VBool False]) = Inr False \<and>
   Color_eq \<lparr>red = 1, green = 2, blue = 0, alpha = 255\<rparr>
     (VList [VInt 1, VFloat (Finite 2), VBool False]) = Inr True \<and>
   length [VInt 1, VInt 2] \<noteq> 3 \<and> length [VInt 1, VInt 2] \<noteq> 4 \<and>
   Color_eq \<lparr>red = 1, green = 2, blue = 3, alpha = 255\<rparr> (VTuple [VInt 1, VInt 2]) =
     Inr False"
proof -
  have h: "\<forall>v\<in>set [VInt 1, VFloat (Finite 2), VBool False, VStr ''x'']. \<not> is_Color v"
    by (simp add: is_Color_def)
  have l: "length [VInt 1, VInt 2 :: pyval] \<noteq> 3 \<and> length [VInt 1, VInt 2 :: pyval] \<noteq> 4"
    by simp
  note t1 = eq_arity_tolerant [of "\<lparr>red = 1, green = 2, blue = 3, alpha = 255\<rparr>" 1 2 3 4
      "\<lparr>CACHE = [], randint = (0, 0, 0)\<rparr>" "\<lparr>red = 1, green = 2, blue = 3, alpha = 254\<rparr>"
      "VInt 1" "VFloat (Finite 2)" "VBool False" "VStr ''x''" "[VInt 1, VInt 2]"]
  note t2 = eq_arity_tolerant [of "\<lparr>red = 1, green = 2, blue = 0, alpha = 255\<rparr>" 1 2 3 4
      "\<lparr>CACHE = [], randint = (0, 0, 0)\<rparr>" "\<lparr>red = 1, green = 2, blue = 3, alpha = 254\<rparr>"
      "VInt 1" "VFloat (Finite 2)" "VBool False" "VStr ''x''" "[VInt 1, VInt 2]"]
  from t1 t2 h l show ?thesis
    by (simp add: component_equals_def)
qed

section \<open>Copies\<close>

text \<open>
  C8. For a colour and any choice of integer overrides among the four components,
  \<^verbatim>\<open>copy\<close> returns a colour that has the override where one is given and the
  component of the original elsewhere; without overrides the copy equals the
  original. The original is a value and is not changed.
\<close>

theorem copy_overrides_components:
  "Color_copy e c (override r) (override g) (override b) (override a) [] =
     Inr (Some \<lparr>red = overridden r (red c), green = overridden g (green c),
                 blue = overridden b (blue c), alpha = overridden a (alpha c)\<rparr>) \<and>
   Color_copy e c VNone VNone VNone VNone [] = Inr (Some c) \<and>
   Color_eq c (VColor (Some c)) = Inr True"
  by (cases r; cases g; cases b; cases a)
     (simp_all add: Color_copy_def override_def overridden_def Color_init_ints Color_eq_refl)

theorem copy_overrides_components_witness:
  "Color_copy \<lparr>CACHE = [], randint = (0, 0, 0)\<rparr>
     \<lparr>red = 255, green = 255, blue = 255, alpha = 255\<rparr>
     (VInt 80) VNone VNone (VInt 128) [] =
   Inr (Some \<lparr>red = 80, green = 255, blue = 255, alpha = 128\<rparr>)"
  using copy_overrides_components [of "\<lparr>CACHE = [], randint = (0, 0, 0)\<rparr>"
      "\<lparr>red = 255, green = 255, blue = 255, alpha = 255\<rparr>" "Some 80" None None "Some 128"]
  by (simp add: override_def overridden_def)

section \<open>Hexadecimal strings\<close>

lemma hex_digit_cases:
  assumes "hex_digit c"
  shows "digit_value c < 16" "\<not> is_space c" "c \<noteq> CHR ''+''" "c \<noteq> CHR ''-''"
    "c \<noteq> CHR ''_''" "c \<noteq> CHR ''x''" "c \<noteq> CHR ''X''"
  using assms by (auto simp add: hex_digit_def digit_value_def is_space_def)

lemma int_of_hex_pair:
  assumes "hex_digit c" "hex_digit d"
  shows "int_of_string 16 [c, d] = Inr (hex_byte c d)"
  using hex_digit_cases [OF assms(1)] hex_digit_cases [OF assms(2)]
  by (simp add: int_of_string_def strip_sign_def strip_prefix_def hex_byte_def)

lemma length_doubled: "length (doubled ds) = 2 * length ds"
  by (induction ds) (simp_all add: doubled_def)

lemma fromhex_six:
  assumes "list_all hex_digit [r1, r2, g1, g2, b1, b2]"
  shows "fromhex (CHR ''#'' # [r1, r2, g1, g2, b1, b2]) (VInt a) =
         Inr \<lparr>red = hex_byte r1 r2, green = hex_byte g1 g2, blue = hex_byte b1 b2, alpha = a\<rparr>"
  using assms by (simp add: fromhex_def hex_pair_def int_of_hex_pair fromrgba_def)

lemma fromhex_eight:
  assumes "list_all hex_digit [r1, r2, g1, g2, b1, b2, a1, a2]"
  shows "fromhex (CHR ''#'' # [r1, r2, g1, g2, b1, b2, a1, a2]) a0 =
         Inr \<lparr>red = hex_byte r1 r2, green = hex_byte g1 g2, blue = hex_byte b1 b2,
              alpha = hex_byte a1 a2\<rparr>"
  using assms by (simp add: fromhex_def hex_pair_def int_of_hex_pair fromrgba_def)

lemma fromhex_doubled:
  assumes "length ds = 3 \<or> length ds = 4"
  shows "fromhex (CHR ''#'' # ds) a0 = fromhex (CHR ''#'' # doubled ds) a0"
  using assms by (auto simp add: fromhex_def doubled_def [symmetric] length_doubled)

lemma fromhex_bad_length:
  assumes "length ds \<notin> {3, 4, 6, 8}"
  shows "fromhex (CHR ''#'' # ds) a0 = Inl ValueError"
  using assms by (simp add: fromhex_def)

lemma Color_init_hash_string:
  "Color_init e [VStr (CHR ''#'' # ds)] [] = initialised (fromhex (CHR ''#'' # ds) (VInt 255))"
  by (simp add: Color_init_def from_str_def startswith_hash_def call_fromhex_def args_ok_def arg_def)

lemma Color_init_six:
  assumes "list_all hex_digit [r1, r2, g1, g2, b1, b2]"
  shows "Color_init e [VStr (CHR ''#'' # [r1, r2, g1, g2, b1, b2])] [] =
         Inr (Some \<lparr>red = hex_byte r1 r2, green = hex_byte g1 g2, blue = hex_byte b1 b2,
                    alpha = 255\<rparr>)"
  using assms by (simp only: Color_init_hash_string fromhex_six) (simp add: initialised_def)

lemma Color_init_eight:
  assumes "list_all hex_digit [r1, r2, g1, g2, b1, b2, a1, a2]"
  shows "Color_init e [VStr (CHR ''#'' # [r1, r2, g1, g2, b1, b2, a1, a2])] [] =
         Inr (Some \<lparr>red = hex_byte r1 r2, green = hex_byte g1 g2, blue = hex_byte b1 b2,
                    alpha = hex_byte a1 a2\<rparr>)"
  using assms by (simp only: Color_init_hash_string fromhex_eight) (simp add: initialised_def)

lemma hex_code_init:
  assumes "hex_code s"
  shows "\<exists>c. Color_init e [VStr s] [] = Inr (Some c)"
proof -
  from assms obtain ds where s: "s = CHR ''#'' # ds" and ds: "list_all hex_digit ds"
    and len: "length ds = 6 \<or> length ds = 8"
    by (cases s) (auto simp add: hex_code_def)
  from len show ?thesis
  proof
    assume "length ds = 6"
    then obtain r1 r2 g1 g2 b1 b2 where "ds = [r1, r2, g1, g2, b1, b2]"
      by (auto simp add: length_Suc_conv eval_nat_numeral)
    with ds s show ?thesis
      by (simp only: Color_init_hash_string) (simp add: fromhex_six initialised_def)
  next
    assume "length ds = 8"
    then obtain r1 r2 g1 g2 b1 b2 a1 a2 where "ds = [r1, r2, g1, g2, b1, b2, a1, a2]"
      by (auto simp add: length_Suc_conv eval_nat_numeral)
    with ds s show ?thesis
      by (simp only: Color_init_hash_string) (simp add: fromhex_eight initialised_def)
  qed
qed

lemma Color_init_hex_kw:
  "Color_init e [VStr (CHR ''#'' # ds)] kw =
     initialised
       (if args_ok [''value'', ''alpha''] [VStr (CHR ''#'' # ds)] kw
        then fromhex (CHR ''#'' # ds)
               (case map_of kw ''alpha'' of Some v \<Rightarrow> v | None \<Rightarrow> VInt 255)
        else Inl TypeError)"
  by (simp add: Color_init_def from_str_def startswith_hash_def call_fromhex_def arg_def)

lemma args_ok_value: "args_ok ps [VStr s] kw = args_ok ps [VStr t] kw"
  by (simp add: args_ok_def)

text \<open>
  C5. A string of three or four characters after \<^verbatim>\<open>#\<close> is read as the string in
  which every character is doubled: both give the same result, from \<^verbatim>\<open>_fromhex\<close>
  and from the constructor. In particular \<^verbatim>\<open>#abc\<close> and \<^verbatim>\<open>#aabbcc\<close> give the same
  colour, and so do \<^verbatim>\<open>#abcd\<close> and \<^verbatim>\<open>#aabbccdd\<close>.
\<close>

theorem hex_short_forms_doubled:
  "(length ds = 3 \<or> length ds = 4 \<longrightarrow>
      fromhex (CHR ''#'' # ds) a0 = fromhex (CHR ''#'' # doubled ds) a0 \<and>
      Color_init e [VStr (CHR ''#'' # ds)] kw =
        Color_init e [VStr (CHR ''#'' # doubled ds)] kw) \<and>
   Color_init e [VStr ''#abc''] [] =
     Inr (Some \<lparr>red = 170, green = 187, blue = 204, alpha = 255\<rparr>) \<and>
   Color_init e [VStr ''#aabbcc''] [] =
     Inr (Some \<lparr>red = 170, green = 187, blue = 204, alpha = 255\<rparr>) \<and>
   Color_init e [VStr ''#abcd''] [] =
     Inr (Some \<lparr>red = 170, green = 187, blue = 204, alpha = 221\<rparr>) \<and>
   Color_init e [VStr ''#aabbccdd''] [] =
     Inr (Some \<lparr>red = 170, green = 187, blue = 204, alpha = 221\<rparr>)"
proof -
  have general: "fromhex (CHR ''#'' # ds) a0 = fromhex (CHR ''#'' # doubled ds) a0 \<and>
      Color_init e [VStr (CHR ''#'' # ds)] kw =
        Color_init e [VStr (CHR ''#'' # doubled ds)] kw"
    if len: "length ds = 3 \<or> length ds = 4"
  proof -
    have "Color_init e [VStr (CHR ''#'' # ds)] kw =
        Color_init e [VStr (CHR ''#'' # doubled ds)] kw"
      unfolding Color_init_hex_kw
      by (simp only: fromhex_doubled [OF len]
          args_ok_value [of _ "CHR ''#'' # ds" kw "CHR ''#'' # doubled ds"])
    with fromhex_doubled [OF len] show ?thesis
      by simp
  qed
  have three: "fromhex ''#abc'' (VInt 255) =
      Inr \<lparr>red = 170, green = 187, blue = 204, alpha = 255\<rparr>"
    by (simp add: fromhex_doubled doubled_def fromhex_six hex_digit_def hex_byte_def
        digit_value_def)
  have four: "fromhex ''#abcd'' (VInt 255) =
      Inr \<lparr>red = 170, green = 187, blue = 204, alpha = 221\<rparr>"
    by (simp add: fromhex_doubled doubled_def fromhex_eight hex_digit_def hex_byte_def
        digit_value_def)
  have six: "Color_init e [VStr ''#aabbcc''] [] =
      Inr (Some \<lparr>red = 170, green = 187, blue = 204, alpha = 255\<rparr>)"
    by (simp add: Color_init_six hex_digit_def hex_byte_def digit_value_def)
  have eight: "Color_init e [VStr ''#aabbccdd''] [] =
      Inr (Some \<lparr>red = 170, green = 187, blue = 204, alpha = 221\<rparr>)"
    by (simp add: Color_init_eight hex_digit_def hex_byte_def digit_value_def)
  have short3: "Color_init e [VStr ''#abc''] [] =
      Inr (Some \<lparr>red = 170, green = 187, blue = 204, alpha = 255\<rparr>)"
    by (simp only: Color_init_hash_string three) (simp add: initialised_def)
  have short4: "Color_init e [VStr ''#abcd''] [] =
      Inr (Some \<lparr>red = 170, green = 187, blue = 204, alpha = 221\<rparr>)"
    by (simp only: Color_init_hash_string four) (simp add: initialised_def)
  from general short3 six short4 eight show ?thesis
    by blast
qed

theorem hex_short_forms_doubled_witness:
  "(length ''f80'' = 3 \<or> length ''f80'' = 4) \<and>
   doubled ''f80'' = ''ff8800'' \<and>
   fromhex ''#f80'' (VInt 255) = fromhex ''#ff8800'' (VInt 255) \<and>
   Color_init \<lparr>CACHE = [], randint = (0, 0, 0)\<rparr> [VStr ''#f80''] [] =
     Color_init \<lparr>CACHE = [], randint = (0, 0, 0)\<rparr> [VStr ''#ff8800''] []"
proof -
  have h: "length ''f80'' = 3 \<or> length ''f80'' = 4"
    by simp
  have d: "doubled ''f80'' = ''ff8800''"
    by (simp add: doubled_def)
  from hex_short_forms_doubled [of "''f80''" "VInt 255" "\<lparr>CACHE = [], randint = (0, 0, 0)\<rparr>" "[]"] h
  have "fromhex ''#f80'' (VInt 255) = fromhex (CHR ''#'' # doubled ''f80'') (VInt 255) \<and>
      Color_init \<lparr>CACHE = [], randint = (0, 0, 0)\<rparr> [VStr ''#f80''] [] =
        Color_init \<lparr>CACHE = [], randint = (0, 0, 0)\<rparr> [VStr (CHR ''#'' # doubled ''f80'')] []"
    by blast
  with h d show ?thesis
    by simp
qed

text \<open>
  C7. When the number of characters after \<^verbatim>\<open>#\<close> is not 3, 4, 6 or 8 the parse
  raises \<^verbatim>\<open>ValueError\<close>. When the characters are hexadecimal digits, six of them
  give red, green and blue with the alpha passed in, eight give all four components,
  and three or four are read with every digit doubled.
\<close>

theorem hex_length_rule:
  "(length ds \<notin> {3, 4, 6, 8} \<longrightarrow>
      fromhex (CHR ''#'' # ds) a0 = Inl ValueError \<and>
      Color_init e [VStr (CHR ''#'' # ds)] [] = Inl ValueError) \<and>
   (list_all hex_digit [r1, r2, g1, g2, b1, b2, a1, a2] \<longrightarrow>
      fromhex (CHR ''#'' # [r1, r2, g1, g2, b1, b2]) (VInt a) =
        Inr \<lparr>red = hex_byte r1 r2, green = hex_byte g1 g2, blue = hex_byte b1 b2,
             alpha = a\<rparr> \<and>
      fromhex (CHR ''#'' # [r1, r2, g1, g2, b1, b2, a1, a2]) a0 =
        Inr \<lparr>red = hex_byte r1 r2, green = hex_byte g1 g2, blue = hex_byte b1 b2,
             alpha = hex_byte a1 a2\<rparr> \<and>
      fromhex (CHR ''#'' # [r1, g1, b1]) (VInt a) =
        Inr \<lparr>red = hex_byte r1 r1, green = hex_byte g1 g1, blue = hex_byte b1 b1,
             alpha = a\<rparr> \<and>
      fromhex (CHR ''#'' # [r1, g1, b1, a1]) a0 =
        Inr \<lparr>red = hex_byte r1 r1, green = hex_byte g1 g1, blue = hex_byte b1 b1,
             alpha = hex_byte a1 a1\<rparr> \<and>
      Color_init e [VStr (CHR ''#'' # [r1, r2, g1, g2, b1, b2])] [] =
        Inr (Some \<lparr>red = hex_byte r1 r2, green = hex_byte g1 g2, blue = hex_byte b1 b2,
                   alpha = 255\<rparr>))"
proof -
  have bad: "fromhex (CHR ''#'' # ds) a0 = Inl ValueError \<and>
      Color_init e [VStr (CHR ''#'' # ds)] [] = Inl ValueError"
    if "length ds \<notin> {3, 4, 6, 8}"
    using fromhex_bad_length [OF that, of a0] fromhex_bad_length [OF that, of "VInt 255"]
    by (simp add: Color_init_hash_string initialised_def)
  have good: "fromhex (CHR ''#'' # [r1, r2, g1, g2, b1, b2]) (VInt a) =
        Inr \<lparr>red = hex_byte r1 r2, green = hex_byte g1 g2, blue = hex_byte b1 b2,
             alpha = a\<rparr> \<and>
      fromhex (CHR ''#'' # [r1, r2, g1, g2, b1, b2, a1, a2]) a0 =
        Inr \<lparr>red = hex_byte r1 r2, green = hex_byte g1 g2, blue = hex_byte b1 b2,
             alpha = hex_byte a1 a2\<rparr> \<and>
      fromhex (CHR ''#'' # [r1, g1, b1]) (VInt a) =
        Inr \<lparr>red = hex_byte r1 r1, green = hex_byte g1 g1, blue = hex_byte b1 b1,
             alpha = a\<rparr> \<and>
      fromhex (CHR ''#'' # [r1, g1, b1, a1]) a0 =
        Inr \<lparr>red = hex_byte r1 r1, green = hex_byte g1 g1, blue = hex_byte b1 b1,
             alpha = hex_byte a1 a1\<rparr> \<and>
      Color_init e [VStr (CHR ''#'' # [r1, r2, g1, g2, b1, b2])] [] =
        Inr (Some \<lparr>red = hex_byte r1 r2, green = hex_byte g1 g2, blue = hex_byte b1 b2,
                   alpha = 255\<rparr>)"
    if "list_all hex_digit [r1, r2, g1, g2, b1, b2, a1, a2]"
    using that
    by (simp add: fromhex_six fromhex_eight Color_init_six fromhex_doubled doubled_def)
  from bad good show ?thesis
    by blast
qed

theorem hex_length_rule_witness:
  "length ''12345'' \<notin> {3, 4, 6, 8} \<and>
   fromhex ''#12345'' (VInt 255) = Inl ValueError \<and>
   list_all hex_digit ''fF8000c0'' \<and>
   fromhex ''#fF8000'' (VInt 7) = Inr \<lparr>red = 255, green = 128, blue = 0, alpha = 7\<rparr> \<and>
   fromhex ''#fF8000c0'' (VInt 7) = Inr \<lparr>red = 255, green = 128, blue = 0, alpha = 192\<rparr> \<and>
   fromhex ''#f80'' (VInt 7) = Inr \<lparr>red = 255, green = 136, blue = 0, alpha = 7\<rparr> \<and>
   fromhex ''#f80c'' (VInt 7) = Inr \<lparr>red = 255, green = 136, blue = 0, alpha = 204\<rparr>"
proof -
  have h1: "length ''12345'' \<notin> {3, 4, 6, 8}"
    by simp
  have h2: "list_all hex_digit ''fF8000c0''"
    by (simp add: hex_digit_def)
  have v: "hex_byte CHR ''f'' CHR ''F'' = 255" "hex_byte CHR ''8'' CHR ''0'' = 128"
    "hex_byte CHR ''0'' CHR ''0'' = 0" "hex_byte CHR ''c'' CHR ''0'' = 192"
    "hex_byte CHR ''f'' CHR ''f'' = 255" "hex_byte CHR ''8'' CHR ''8'' = 136"
    "hex_byte CHR ''c'' CHR ''c'' = 204"
    by (simp_all add: hex_byte_def digit_value_def)
  from hex_length_rule [of "''12345''" "VInt 255" "\<lparr>CACHE = [], randint = (0, 0, 0)\<rparr>"] h1
  have bad: "fromhex ''#12345'' (VInt 255) = Inl ValueError"
    by blast
  from hex_length_rule [of "[]" "VInt 7" "\<lparr>CACHE = [], randint = (0, 0, 0)\<rparr>"
      "CHR ''f''" "CHR ''F''" "CHR ''8''" "CHR ''0''" "CHR ''0''" "CHR ''0''" "CHR ''c''" "CHR ''0''" 7] h2
  have "fromhex ''#fF8000'' (VInt 7) =
        Inr \<lparr>red = hex_byte CHR ''f'' CHR ''F'', green = hex_byte CHR ''8'' CHR ''0'',
             blue = hex_byte CHR ''0'' CHR ''0'', alpha = 7\<rparr> \<and>
      fromhex ''#fF8000c0'' (VInt 7) =
        Inr \<lparr>red = hex_byte CHR ''f'' CHR ''F'', green = hex_byte CHR ''8'' CHR ''0'',
             blue = hex_byte CHR ''0'' CHR ''0'', alpha = hex_byte CHR ''c'' CHR ''0''\<rparr> \<and>
      fromhex ''#f80'' (VInt 7) =
        Inr \<lparr>red = hex_byte CHR ''f'' CHR ''f'', green = hex_byte CHR ''8'' CHR ''8'',
             blue = hex_byte CHR ''0'' CHR ''0'', alpha = 7\<rparr> \<and>
      fromhex ''#f80c'' (VInt 7) =
        Inr \<lparr>red = hex_byte CHR ''f'' CHR ''f'', green = hex_byte CHR ''8'' CHR ''8'',
             blue = hex_byte CHR ''0'' CHR ''0'', alpha = hex_byte CHR ''c'' CHR ''c''\<rparr>"
    by blast
  with h1 h2 bad show ?thesis
    by (simp only: v) simp
qed

section \<open>The registry and the module functions\<close>

lemma setdefault_keeps:
  "map_of d k = Some v \<Longrightarrow> map_of (setdefault d k' v') k = Some v"
  by (auto simp add: setdefault_def update_conv' split: option.splits)

lemma setdefault_all_ok:
  assumes "list_all (\<lambda>(name, code). hex_code code) tbl"
  shows "\<exists>d'. setdefault_all rnd d tbl = Inr d' \<and>
           (\<forall>k v. map_of d k = Some v \<longrightarrow> map_of d' k = Some v)"
  using assms
proof (induction tbl arbitrary: d)
  case Nil
  then show ?case by simp
next
  case (Cons p tbl)
  obtain name code where p: "p = (name, code)"
    by (cases p)
  from Cons.prems p have code: "hex_code code" and rest: "list_all (\<lambda>(name, code). hex_code code) tbl"
    by simp_all
  from hex_code_init [OF code] obtain c
    where c: "Color_init \<lparr>CACHE = d, randint = rnd\<rparr> [VStr code] [] = Inr (Some c)"
    by blast
  from Cons.IH [OF rest, of "setdefault d name (Some c)"] obtain d'
    where d': "setdefault_all rnd (setdefault d name (Some c)) tbl = Inr d'"
      and keep: "\<forall>k v. map_of (setdefault d name (Some c)) k = Some v \<longrightarrow> map_of d' k = Some v"
    by blast
  from keep have "\<forall>k v. map_of d k = Some v \<longrightarrow> map_of d' k = Some v"
    by (blast intro: setdefault_keeps)
  with d' c p show ?case
    by simp
qed

lemma COLOR_NAMES_codes: "list_all (\<lambda>(name, code). hex_code code) COLOR_NAMES"
  by (simp add: COLOR_NAMES_def hex_code_def hex_digit_def)

lemma basics_loaded:
  "\<exists>kvs. emap (\<lambda>(name, code).
                 ebind (Color_init \<lparr>CACHE = [], randint = rnd\<rparr> [VStr code] [])
                   (\<lambda>obj. Inr (name, obj))) basic_colors = Inr kvs \<and>
         map_of (dict_update [] kvs) ''black'' =
           Some (Some \<lparr>red = 0, green = 0, blue = 0, alpha = 255\<rparr>)"
  by (simp add: basic_colors_def Color_init_six Color_init_eight hex_digit_def hex_byte_def
      digit_value_def dict_update_def)

lemma module_CACHE_black:
  "\<exists>cache. module_CACHE rnd = Inr cache \<and>
     map_of cache ''black'' = Some (Some \<lparr>red = 0, green = 0, blue = 0, alpha = 255\<rparr>)"
proof -
  from basics_loaded [of rnd] obtain kvs
    where kvs: "emap (\<lambda>(name, code).
                 ebind (Color_init \<lparr>CACHE = [], randint = rnd\<rparr> [VStr code] [])
                   (\<lambda>obj. Inr (name, obj))) basic_colors = Inr kvs"
      and black: "map_of (dict_update [] kvs) ''black'' =
           Some (Some \<lparr>red = 0, green = 0, blue = 0, alpha = 255\<rparr>)"
    by blast
  from setdefault_all_ok [OF COLOR_NAMES_codes, of rnd "dict_update [] kvs"] obtain cache
    where cache: "setdefault_all rnd (dict_update [] kvs) COLOR_NAMES = Inr cache"
      and keep: "\<forall>k v. map_of (dict_update [] kvs) k = Some v \<longrightarrow> map_of cache k = Some v"
    by blast
  from kvs cache have "module_CACHE rnd = Inr cache"
    by (simp add: module_CACHE_def)
  moreover from keep black
  have "map_of cache ''black'' = Some (Some \<lparr>red = 0, green = 0, blue = 0, alpha = 255\<rparr>)"
    by blast
  ultimately show ?thesis
    by blast
qed

lemma Color_rgb_value:
  "Color_rgb c = Inr (VTuple [VInt (red c), VInt (green c), VInt (blue c)])"
proof -
  have "tuple_slice [0, 1, 2, 3 :: int] None (Some 3) None = Inr [0, 1, 2]"
    by (simp add: tuple_slice_def upt_rec [of 0] upt_rec [of "Suc 0"] upt_rec [of 2] eval_nat_numeral)
  then show ?thesis
    by (simp add: Color_rgb_def Color_getitem_def getitem_int_def)
qed

lemma init_registered:
  assumes "map_of (CACHE e) ''black'' = Some (Some c)"
  shows "Color_init e [VStr ''black''] [] = Inr (Some c)"
  using assms
  by (simp add: Color_init_def from_str_def startswith_hash_def call_fromname_def args_ok_def
      fromname_def lower_def lower_char_def Color_iter_def call_fromrgba_ints initialised_def)

lemma falsy_has_no_attr:
  assumes "\<not> truthy v"
  shows "attr_rgb v = Inl AttributeError" "attr_rgba v = Inl AttributeError"
  using assms by (cases v; simp add: attr_rgb_def attr_rgba_def)+

lemma rgb_falsy:
  assumes "\<not> truthy v" "map_of (CACHE e) ''black'' = Some (Some c)"
  shows "rgb e v = Color_rgb c" "rgba e v = Inr (Color_rgba c)"
proof -
  have built: "Color_init e [if truthy v then v else VStr ''black''] [] = Inr (Some c)"
    using assms by (simp add: init_registered)
  show "rgb e v = Color_rgb c"
    by (simp add: rgb_def falsy_has_no_attr(1) [OF assms(1)] built) (simp add: attr_rgb_def)
  show "rgba e v = Inr (Color_rgba c)"
    by (simp add: rgba_def falsy_has_no_attr(2) [OF assms(1)] built) (simp add: attr_rgba_def)
qed

text \<open>
  C9. With the registry that the module builds at import, \<^verbatim>\<open>rgb\<close> and \<^verbatim>\<open>rgba\<close>
  return (0, 0, 0) and (0, 0, 0, 255) for \<^verbatim>\<open>None\<close> and for every other value
  that is false in a boolean context (no \<^verbatim>\<open>Color\<close> is), and for a \<^verbatim>\<open>Color\<close>
  they return its own components.
\<close>

theorem rgb_of_null_is_black:
  "\<exists>cache. module_CACHE rnd0 = Inr cache \<and>
     (\<forall>v rnd. \<not> truthy v \<longrightarrow>
        rgb \<lparr>CACHE = cache, randint = rnd\<rparr> v = Inr (VTuple [VInt 0, VInt 0, VInt 0]) \<and>
        rgba \<lparr>CACHE = cache, randint = rnd\<rparr> v =
          Inr (VTuple [VInt 0, VInt 0, VInt 0, VInt 255])) \<and>
     (\<forall>c rnd.
        rgb \<lparr>CACHE = cache, randint = rnd\<rparr> (VColor (Some c)) =
          Inr (VTuple [VInt (red c), VInt (green c), VInt (blue c)]) \<and>
        rgba \<lparr>CACHE = cache, randint = rnd\<rparr> (VColor (Some c)) =
          Inr (VTuple [VInt (red c), VInt (green c), VInt (blue c), VInt (alpha c)]))"
proof -
  from module_CACHE_black [of rnd0] obtain cache
    where loaded: "module_CACHE rnd0 = Inr cache"
      and black: "map_of cache ''black'' = Some (Some \<lparr>red = 0, green = 0, blue = 0, alpha = 255\<rparr>)"
    by blast
  have falsy: "rgb \<lparr>CACHE = cache, randint = rnd\<rparr> v = Inr (VTuple [VInt 0, VInt 0, VInt 0]) \<and>
        rgba \<lparr>CACHE = cache, randint = rnd\<rparr> v =
          Inr (VTuple [VInt 0, VInt 0, VInt 0, VInt 255])" if "\<not> truthy v" for v rnd
    using that black
    by (simp add: rgb_falsy [where c = "\<lparr>red = 0, green = 0, blue = 0, alpha = 255\<rparr>"]
        Color_rgb_value Color_rgba_def Color_iter_def)
  have own: "rgb e (VColor (Some c)) =
          Inr (VTuple [VInt (red c), VInt (green c), VInt (blue c)]) \<and>
        rgba e (VColor (Some c)) =
          Inr (VTuple [VInt (red c), VInt (green c), VInt (blue c), VInt (alpha c)])" for e c
    by (simp add: rgb_def rgba_def attr_rgb_def attr_rgba_def Color_rgb_value Color_rgba_def
        Color_iter_def)
  from loaded falsy own show ?thesis
    by blast
qed

theorem rgb_of_null_is_black_witness:
  "\<exists>cache. module_CACHE (0, 0, 0) = Inr cache \<and> \<not> truthy VNone \<and>
     rgb \<lparr>CACHE = cache, randint = (0, 0, 0)\<rparr> VNone = Inr (VTuple [VInt 0, VInt 0, VInt 0]) \<and>
     rgba \<lparr>CACHE = cache, randint = (0, 0, 0)\<rparr> VNone =
       Inr (VTuple [VInt 0, VInt 0, VInt 0, VInt 255])"
proof -
  have h: "\<not> truthy VNone"
    by simp
  from rgb_of_null_is_black [of "(0, 0, 0)"] h show ?thesis
    by blast
qed

end
